theory Spec2Isabelle
  imports Main
begin

section \<open>Host values and errors\<close>

text \<open>
  The module \<open>hypothesis/extra/numpy.py\<close> composes generators ("strategies") of the
  hypothesis combinator library and validates its arguments. Python exceptions are values of
  \<open>error\<close>; a function that can raise returns \<open>error + 'a\<close> with \<open>Inl\<close> the exception.
  \<open>InvalidArgument\<close> is the library's own exception and carries its message; the others
  are exceptions of the Python runtime.
\<close>

datatype error =
    InvalidArgument string
  | TypeError string
  | IndexError
  | KeyError string
  | ValueError
  | AttributeError
  | AssertionError

text \<open>
  A numpy dtype as far as the module reads it: its one-letter \<open>kind\<close>, its \<open>itemsize\<close> in
  bytes, and the text \<open>str(dtype)\<close> prints (used in one error message).
\<close>

record dtype =
  kind :: string
  itemsize :: nat
  dtype_name :: string

text \<open>
  Python values the module handles. \<open>PHost r\<close> is any other host object (a float such as
  \<open>-inf\<close>, a complex number, a byte string, a numpy scalar), kept as the text \<open>r\<close> that
  \<open>str\<close> prints for it. Strings are Isabelle strings, which covers every literal of the
  module.
\<close>

datatype pyval =
    PNone
  | PBool bool
  | PInt int
  | PStr string
  | PTuple "pyval list"
  | PList "pyval list"
  | PDtype dtype
  | PHost string

text \<open>Truth value of an object, as \<open>if not condition\<close> tests it.\<close>

fun truthy :: "pyval \<Rightarrow> bool" where
  "truthy PNone = False"
| "truthy (PBool b) = b"
| "truthy (PInt i) = (i \<noteq> 0)"
| "truthy (PStr s) = (s \<noteq> [])"
| "truthy (PTuple vs) = (vs \<noteq> [])"
| "truthy (PList vs) = (vs \<noteq> [])"
| "truthy (PDtype d) = True"
| "truthy (PHost r) = True"

subsection \<open>Printing values\<close>

definition digit_char :: "nat \<Rightarrow> char" where
  "digit_char n = ''0123456789'' ! (n mod 10)"

fun digits :: "nat \<Rightarrow> string" where
  "digits n = (if n < 10 then [digit_char n] else digits (n div 10) @ [digit_char n])"

declare digits.simps [simp del]

definition str_int :: "int \<Rightarrow> string" where
  "str_int i = (if i < 0 then CHR ''-'' # digits (nat (- i)) else digits (nat i))"

fun join :: "string \<Rightarrow> string list \<Rightarrow> string" where
  "join sep [] = []"
| "join sep [s] = s"
| "join sep (s # t # ss) = s @ sep @ join sep (t # ss)"

text \<open>
  \<open>py_repr\<close> is \<open>repr\<close>, which prints the items of a tuple or list; \<open>py_str\<close> is
  \<open>str\<close>, which a \<open>{}\<close> field of \<open>str.format\<close> applies. They differ on strings
  only: \<open>repr\<close> quotes them (strings here hold no quote, backslash or control
  character). A one-item tuple prints with a trailing comma.
\<close>

fun py_repr :: "pyval \<Rightarrow> string" where
  "py_repr PNone = ''None''"
| "py_repr (PBool b) = (if b then ''True'' else ''False'')"
| "py_repr (PInt i) = str_int i"
| "py_repr (PStr s) = [CHR 0x27] @ s @ [CHR 0x27]"
| "py_repr (PTuple vs) =
     (case vs of
        [v] \<Rightarrow> ''('' @ py_repr v @ '',)''
      | _ \<Rightarrow> ''('' @ join '', '' (map py_repr vs) @ '')'')"
| "py_repr (PList vs) = ''['' @ join '', '' (map py_repr vs) @ '']''"
| "py_repr (PDtype d) = ''dtype('' @ [CHR 0x27] @ dtype_name d @ [CHR 0x27] @ '')''"
| "py_repr (PHost r) = r"

definition py_str :: "pyval \<Rightarrow> string" where
  "py_str v = (case v of PStr s \<Rightarrow> s | PDtype d \<Rightarrow> dtype_name d | _ \<Rightarrow> py_repr v)"

subsection \<open>\<open>str.format\<close>\<close>

text \<open>
  \<open>template.format(*args, **kwargs)\<close> for the two kinds of replacement field the
  module's templates use: \<open>{}\<close> takes the next positional argument, \<open>{name}\<close> the
  keyword argument \<open>name\<close>. The template is scanned left to right; \<open>field\<close> is
  \<open>None\<close> outside a field and holds the name read so far inside one. Running out of
  positional arguments raises IndexError, a missing keyword KeyError; arguments left
  over are ignored. The escapes \<open>{{\<close> and \<open>}}\<close>, numbered fields and format
  specifiers are not modelled, and a closing brace outside a field is copied, where Python
  raises ValueError; no template of the module has any of these.
\<close>

fun format_scan ::
  "string \<Rightarrow> string option \<Rightarrow> pyval list \<Rightarrow> (string \<times> pyval) list \<Rightarrow> string \<Rightarrow> error + string"
where
  "format_scan [] None args kwargs out = Inr out"
| "format_scan [] (Some field) args kwargs out = Inl ValueError"
| "format_scan (c # cs) None args kwargs out =
     (if c = CHR ''{'' then format_scan cs (Some []) args kwargs out
      else format_scan cs None args kwargs (out @ [c]))"
| "format_scan (c # cs) (Some field) args kwargs out =
     (if c = CHR ''}'' then
        (if field = [] then
           (case args of
              [] \<Rightarrow> Inl IndexError
            | a # rest \<Rightarrow> format_scan cs None rest kwargs (out @ py_str a))
         else
           (case map_of kwargs field of
              None \<Rightarrow> Inl (KeyError field)
            | Some v \<Rightarrow> format_scan cs None args kwargs (out @ py_str v)))
      else format_scan cs (Some (field @ [c])) args kwargs out)"

definition str_format :: "string \<Rightarrow> pyval list \<Rightarrow> (string \<times> pyval) list \<Rightarrow> error + string" where
  "str_format template args kwargs = format_scan template None args kwargs []"

text \<open>The attribute lookup \<open>fail_message.format\<close>: only a string has the method.\<close>

definition format_method :: "pyval \<Rightarrow> pyval list \<Rightarrow> (string \<times> pyval) list \<Rightarrow> error + string" where
  "format_method obj args kwargs =
     (case obj of PStr template \<Rightarrow> str_format template args kwargs | _ \<Rightarrow> Inl AttributeError)"

section \<open>Argument checks\<close>

text \<open>
  \<^verbatim>\<open>
  def check_argument(condition, fail_message, *f_args, **f_kwargs):
      if not condition:
          raise InvalidArgument(fail_message.format(*f_args, **f_kwargs))
  \<close>
\<close>

definition check_argument ::
  "pyval \<Rightarrow> pyval \<Rightarrow> pyval list \<Rightarrow> (string \<times> pyval) list \<Rightarrow> error + unit"
where
  "check_argument condition fail_message f_args f_kwargs =
     (if \<not> truthy condition then
        (case format_method fail_message f_args f_kwargs of
           Inl e \<Rightarrow> Inl e
         | Inr message \<Rightarrow> Inl (InvalidArgument message))
      else Inr ())"

text \<open>
  A call \<open>check_argument(*positional, **keywords)\<close>: Python binds the positional
  arguments to \<open>condition\<close> and \<open>fail_message\<close> in order and the rest to
  \<open>*f_args\<close>; a keyword naming a parameter already bound is a TypeError, as is a
  parameter left unbound; the other keywords go to \<open>**f_kwargs\<close>. The body runs only
  when the binding succeeds.
\<close>

definition multiple_values :: "string \<Rightarrow> error" where
  "multiple_values p =
     TypeError (''check_argument() got multiple values for argument '' @ [CHR 0x27] @ p @ [CHR 0x27])"

definition missing_argument :: "string \<Rightarrow> error" where
  "missing_argument p =
     TypeError (''check_argument() missing required argument '' @ [CHR 0x27] @ p @ [CHR 0x27])"

definition drop_key :: "string \<Rightarrow> (string \<times> pyval) list \<Rightarrow> (string \<times> pyval) list" where
  "drop_key k kwargs = filter (\<lambda>kv. fst kv \<noteq> k) kwargs"

fun call_check_argument :: "pyval list \<Rightarrow> (string \<times> pyval) list \<Rightarrow> error + unit" where
  "call_check_argument [] keywords =
     (case map_of keywords ''condition'' of
        None \<Rightarrow> Inl (missing_argument ''condition'')
      | Some c \<Rightarrow>
          (case map_of keywords ''fail_message'' of
             None \<Rightarrow> Inl (missing_argument ''fail_message'')
           | Some m \<Rightarrow>
               check_argument c m []
                 (drop_key ''condition'' (drop_key ''fail_message'' keywords))))"
| "call_check_argument [c] keywords =
     (if map_of keywords ''condition'' \<noteq> None then Inl (multiple_values ''condition'')
      else
        (case map_of keywords ''fail_message'' of
           None \<Rightarrow> Inl (missing_argument ''fail_message'')
         | Some m \<Rightarrow> check_argument c m [] (drop_key ''fail_message'' keywords)))"
| "call_check_argument (c # m # f_args) keywords =
     (if map_of keywords ''condition'' \<noteq> None then Inl (multiple_values ''condition'')
      else if map_of keywords ''fail_message'' \<noteq> None then Inl (multiple_values ''fail_message'')
      else check_argument c m f_args keywords)"

text \<open>
  \<^verbatim>\<open>
  def order_check(name, floor, small, large):
      if floor is None:
          floor = -np.inf
      if floor > small > large:
          check_argument(u'min_{name} was {}, must be at least {} and not more '
                         u'than max_{name} (was {})', small, floor, large,
                         name=name, condition=False)
  \<close>
  The bounds are Python integers. \<open>floor\<close> is \<open>None\<close> when the caller passes none; it
  then becomes minus infinity, which is greater than no integer.
\<close>

definition order_check :: "string \<Rightarrow> int option \<Rightarrow> int \<Rightarrow> int \<Rightarrow> error + unit" where
  "order_check name floor small large =
     (let floor_gt_small = (case floor of None \<Rightarrow> False | Some f \<Rightarrow> f > small);
          floor_val = (case floor of None \<Rightarrow> PHost ''-inf'' | Some f \<Rightarrow> PInt f)
      in if floor_gt_small \<and> small > large then
           call_check_argument
             [PStr ''min_{name} was {}, must be at least {} and not more than max_{name} (was {})'',
              PInt small, floor_val, PInt large]
             [(''name'', PStr name), (''condition'', PBool False)]
         else Inr ())"

section \<open>The combinator library\<close>

text \<open>
  Modelled from the spec: the generators of \<open>hypothesis.strategies\<close>, which the module
  only composes and whose code is not part of it. A strategy is the term that builds it:
  \<open>Integers lo hi\<close> is \<open>st.integers(lo, hi)\<close>, \<open>Lists el lo hi\<close> is
  \<open>st.lists(el, min_size=lo, max_size=hi)\<close>, \<open>Mapped f s\<close> is \<open>s.map(f)\<close>,
  \<open>OneOf [s, t]\<close> is \<open>s | t\<close>. The decorator \<open>st.defines_strategy\<close> changes
  when a strategy is built, not which one, and is left out.
\<close>

datatype strategy =
    Booleans
  | Floats
  | ComplexNumbers
  | Binary
  | Text
  | Integers int int
  | Just pyval
  | SampledFrom "pyval list"
  | Lists strategy int int
  | Mapped "pyval \<Rightarrow> error + pyval" strategy
  | OneOf "strategy list"

text \<open>
  Modelled from the spec: what one draw from a strategy can give, a value or the
  exception a mapped function raises on it. The spec's interface gives bounded-integer
  generators, "sample one of a fixed set", lists of bounded length, a union and a
  result-transforming map; floats, complex numbers and byte strings are host objects.
\<close>

primrec draws :: "strategy \<Rightarrow> (error + pyval) set" where
  "draws Booleans = {Inr (PBool True), Inr (PBool False)}"
| "draws Floats = range (\<lambda>r. Inr (PHost r))"
| "draws ComplexNumbers = range (\<lambda>r. Inr (PHost r))"
| "draws Binary = range (\<lambda>r. Inr (PHost r))"
| "draws Text = range (\<lambda>s. Inr (PStr s))"
| "draws (Integers lo hi) = (\<lambda>i. Inr (PInt i)) ` {lo..hi}"
| "draws (Just v) = {Inr v}"
| "draws (SampledFrom vs) = Inr ` set vs"
| "draws (Lists el lo hi) =
     {Inr (PList vs) | vs.
        lo \<le> int (length vs) \<and> int (length vs) \<le> hi \<and> (\<forall>v \<in> set vs. Inr v \<in> draws el)}
     \<union> {Inl e | e. Inl e \<in> draws el \<and> 0 < hi}"
| "draws (Mapped f s) = (\<lambda>r. case r of Inl e \<Rightarrow> Inl e | Inr v \<Rightarrow> f v) ` draws s"
| "draws (OneOf ss) = \<Union> (set (map draws ss))"

text \<open>The builtin \<open>tuple\<close>, which \<open>array_shapes\<close> maps over the drawn lists.\<close>

definition py_tuple :: "pyval \<Rightarrow> error + pyval" where
  "py_tuple v =
     (case v of
        PList vs \<Rightarrow> Inr (PTuple vs)
      | PTuple vs \<Rightarrow> Inr (PTuple vs)
      | PStr s \<Rightarrow> Inr (PTuple (map (\<lambda>c. PStr [c]) s))
      | _ \<Rightarrow> Inl (TypeError ''object is not iterable''))"

section \<open>Shapes\<close>

text \<open>
  \<^verbatim>\<open>
  def array_shapes(min_dims=1, max_dims=3, min_side=1, max_side=10):
      order_check('dims', 1, min_dims, max_dims)
      order_check('side', 1, min_side, max_side)
      return st.lists(st.integers(min_side, max_side),
                      min_size=min_dims, max_size=max_dims).map(tuple)
  \<close>
\<close>

definition array_shapes :: "int \<Rightarrow> int \<Rightarrow> int \<Rightarrow> int \<Rightarrow> error + strategy" where
  "array_shapes min_dims max_dims min_side max_side =
     (case order_check ''dims'' (Some 1) min_dims max_dims of
        Inl e \<Rightarrow> Inl e
      | Inr _ \<Rightarrow>
          (case order_check ''side'' (Some 1) min_side max_side of
             Inl e \<Rightarrow> Inl e
           | Inr _ \<Rightarrow>
               Inr (Mapped py_tuple (Lists (Integers min_side max_side) min_dims max_dims))))"

section \<open>Dtype families\<close>

text \<open>The substring test \<open>sub in s\<close> on strings.\<close>

fun contains :: "string \<Rightarrow> string \<Rightarrow> bool" where
  "contains sub [] = (sub = [])"
| "contains sub (c # cs) = (take (length sub) (c # cs) = sub \<or> contains sub cs)"

text \<open>
  The bound method \<open>template.format\<close> as the function \<open>strat.map\<close> applies to each
  drawn size.
\<close>

definition format_with :: "string \<Rightarrow> pyval \<Rightarrow> error + pyval" where
  "format_with template v =
     (case str_format template [v] [] of Inl e \<Rightarrow> Inl e | Inr s \<Rightarrow> Inr (PStr s))"

text \<open>
  The \<open>sizes\<close> argument: one Python integer or a sequence of them. \<open>valid_sizes\<close>
  is \<open>None\<close> or a tuple of integers.
\<close>

datatype sizes_arg = SizeInt int | SizeSeq "int list"

definition valid_endian :: "string list" where
  "valid_endian = [''?'', ''<'', ''='', ''>'']"

text \<open>
  \<^verbatim>\<open>
  def dtype_factory(kind, sizes, valid_sizes, endianness):
      valid_endian = ('?', '<', '=', '>')
      check_argument(endianness in valid_endian,
                     u'Unknown endianness: was {}, must be in {}', valid_endian)
      if valid_sizes is not None:
          if isinstance(sizes, int):
              sizes = (sizes,)
          check_argument(sizes, 'Dtype must have at least one possible size.')
          check_argument(all(s in valid_sizes for s in sizes),
                         u'Invalid sizes: was {} must be an item or sequence '
                         u'in {}', sizes, valid_sizes)
          if all(isinstance(s, int) for s in sizes):
              sizes = sorted(set(s // 8 for s in sizes))
      strat = st.sampled_from(sizes)
      if '{}' not in kind:
          kind += '{}'
      if endianness == '?':
          return strat.map(('<' + kind).format) | strat.map(('>' + kind).format)
      return strat.map((endianness + kind).format)
  \<close>
  The parameter \<open>kind\<close> is written \<open>kind1\<close>, and \<open>kind2\<close> once the placeholder is
  appended by \<open>with_placeholder\<close>. \<open>sizes_tuple\<close> is \<open>sizes\<close> after \<open>if isinstance(sizes, int): sizes = (sizes,)\<close>
  and \<open>normalize_sizes\<close> the block under \<open>valid_sizes is not None\<close>; with no
  \<open>valid_sizes\<close> the sizes go to \<open>sampled_from\<close> as they are, which needs a
  sequence.
\<close>

definition sizes_tuple :: "sizes_arg \<Rightarrow> int list" where
  "sizes_tuple sizes = (case sizes of SizeInt n \<Rightarrow> [n] | SizeSeq ns \<Rightarrow> ns)"

definition normalize_sizes :: "sizes_arg \<Rightarrow> int list \<Rightarrow> error + int list" where
  "normalize_sizes sizes valid_sizes =
     (let sizes1 = sizes_tuple sizes in
      case check_argument (PTuple (map PInt sizes1))
             (PStr ''Dtype must have at least one possible size.'') [] [] of
        Inl e \<Rightarrow> Inl e
      | Inr _ \<Rightarrow>
          (case check_argument (PBool (list_all (\<lambda>s. s \<in> set valid_sizes) sizes1))
                  (PStr ''Invalid sizes: was {} must be an item or sequence in {}'')
                  [PTuple (map PInt sizes1), PTuple (map PInt valid_sizes)] [] of
             Inl e \<Rightarrow> Inl e
           | Inr _ \<Rightarrow> Inr (sort (remdups (map (\<lambda>s. s div 8) sizes1)))))"

definition with_placeholder :: "string \<Rightarrow> string" where
  "with_placeholder kind1 = (if \<not> contains ''{}'' kind1 then kind1 @ ''{}'' else kind1)"

definition dtype_factory ::
  "string \<Rightarrow> sizes_arg \<Rightarrow> int list option \<Rightarrow> string \<Rightarrow> error + strategy"
where
  "dtype_factory kind1 sizes valid_sizes endianness =
     (case check_argument (PBool (endianness \<in> set valid_endian))
             (PStr ''Unknown endianness: was {}, must be in {}'')
             [PTuple (map PStr valid_endian)] [] of
        Inl e \<Rightarrow> Inl e
      | Inr _ \<Rightarrow>
          (case (case valid_sizes of
                   Some vs \<Rightarrow> normalize_sizes sizes vs
                 | None \<Rightarrow>
                     (case sizes of
                        SizeSeq ns \<Rightarrow> Inr ns
                      | SizeInt n \<Rightarrow> Inl (TypeError ''object is not iterable''))) of
             Inl e \<Rightarrow> Inl e
           | Inr sizes2 \<Rightarrow>
               (let strat = SampledFrom (map PInt sizes2);
                    kind2 = with_placeholder kind1
                in if endianness = ''?'' then
                     Inr (OneOf [Mapped (format_with (''<'' @ kind2)) strat,
                                 Mapped (format_with (''>'' @ kind2)) strat])
                   else Inr (Mapped (format_with (endianness @ kind2)) strat))))"

text \<open>
  \<^verbatim>\<open>
  def defines_dtype_strategy(strat):
      def inner(*args, **kwargs):
          return strat(*args, **kwargs).map(np.dtype)
  \<close>
  \<open>np_dtype\<close> is numpy's parser of descriptor strings, a parameter of the model.
\<close>

definition defines_dtype_strategy ::
  "(pyval \<Rightarrow> error + pyval) \<Rightarrow> error + strategy \<Rightarrow> error + strategy"
where
  "defines_dtype_strategy np_dtype built =
     (case built of Inl e \<Rightarrow> Inl e | Inr s \<Rightarrow> Inr (Mapped np_dtype s))"

definition boolean_dtypes :: "(pyval \<Rightarrow> error + pyval) \<Rightarrow> error + strategy" where
  "boolean_dtypes np_dtype = defines_dtype_strategy np_dtype (Inr (Just (PStr ''?'')))"

definition unsigned_integer_dtypes ::
  "(pyval \<Rightarrow> error + pyval) \<Rightarrow> string \<Rightarrow> sizes_arg \<Rightarrow> error + strategy"
where
  "unsigned_integer_dtypes np_dtype endianness sizes =
     defines_dtype_strategy np_dtype
       (dtype_factory ''u'' sizes (Some [8, 16, 32, 64]) endianness)"

definition integer_dtypes ::
  "(pyval \<Rightarrow> error + pyval) \<Rightarrow> string \<Rightarrow> sizes_arg \<Rightarrow> error + strategy"
where
  "integer_dtypes np_dtype endianness sizes =
     defines_dtype_strategy np_dtype
       (dtype_factory ''i'' sizes (Some [8, 16, 32, 64]) endianness)"

definition floating_dtypes ::
  "(pyval \<Rightarrow> error + pyval) \<Rightarrow> string \<Rightarrow> sizes_arg \<Rightarrow> error + strategy"
where
  "floating_dtypes np_dtype endianness sizes =
     defines_dtype_strategy np_dtype
       (dtype_factory ''f'' sizes (Some [16, 32, 64, 96, 128]) endianness)"

definition complex_number_dtypes ::
  "(pyval \<Rightarrow> error + pyval) \<Rightarrow> string \<Rightarrow> sizes_arg \<Rightarrow> error + strategy"
where
  "complex_number_dtypes np_dtype endianness sizes =
     defines_dtype_strategy np_dtype
       (dtype_factory ''c'' sizes (Some [64, 128, 192, 256]) endianness)"

section \<open>Element strategies from a dtype\<close>

text \<open>
  Python's \<open>a << n\<close> on integers: a negative shift count raises ValueError.
\<close>

definition lshift :: "int \<Rightarrow> int \<Rightarrow> error + int" where
  "lshift a n = (if n < 0 then Inl ValueError else Inr (a * 2 ^ nat n))"

text \<open>
  \<^verbatim>\<open>
  def from_dtype(dtype):
      if dtype.kind == u'b':
          result = st.booleans()
      elif dtype.kind == u'f':
          result = st.floats()
      elif dtype.kind == u'c':
          result = st.complex_numbers()
      elif dtype.kind in (u'S', u'a', u'V'):
          result = st.binary()
      elif dtype.kind == u'u':
          result = st.integers(
              min_value=0, max_value=1 << (4 * dtype.itemsize) - 1)
      elif dtype.kind == u'i':
          min_integer = -1 << (4 * dtype.itemsize - 1)
          result = st.integers(min_value=min_integer, max_value=-min_integer - 1)
      elif dtype.kind == u'U':
          result = st.text()
      else:
          raise InvalidArgument(u'No strategy inference for {}'.format(dtype))
      return result.map(dtype.type)
  \<close>
  In Python \<open>-\<close> binds tighter than \<open><<\<close>, so the unsigned bound is
  \<open>1 << ((4 * itemsize) - 1)\<close> and the signed one \<open>(-1) << (4 * itemsize - 1)\<close>.
  \<open>scalar_type d\<close> is numpy's constructor \<open>dtype.type\<close> of scalars of the dtype, a
  parameter of the model.
\<close>

definition from_dtype :: "(dtype \<Rightarrow> pyval \<Rightarrow> error + pyval) \<Rightarrow> dtype \<Rightarrow> error + strategy" where
  "from_dtype scalar_type d =
     (case
        (if kind d = ''b'' then Inr Booleans
         else if kind d = ''f'' then Inr Floats
         else if kind d = ''c'' then Inr ComplexNumbers
         else if kind d \<in> set [''S'', ''a'', ''V''] then Inr Binary
         else if kind d = ''u'' then
           (case lshift 1 ((4 * int (itemsize d)) - 1) of
              Inl e \<Rightarrow> Inl e
            | Inr max_integer \<Rightarrow> Inr (Integers 0 max_integer))
         else if kind d = ''i'' then
           (case lshift (- 1) (4 * int (itemsize d) - 1) of
              Inl e \<Rightarrow> Inl e
            | Inr min_integer \<Rightarrow> Inr (Integers min_integer (- min_integer - 1)))
         else if kind d = ''U'' then Inr Text
         else
           (case str_format ''No strategy inference for {}'' [PDtype d] [] of
              Inl e \<Rightarrow> Inl e
            | Inr message \<Rightarrow> Inl (InvalidArgument message)))
      of
        Inl e \<Rightarrow> Inl e
      | Inr result \<Rightarrow> Inr (Mapped (scalar_type d) result))"

section \<open>Arrays\<close>

text \<open>
  \<^verbatim>\<open>
  class ArrayStrategy(SearchStrategy):
      def __init__(self, element_strategy, shape, dtype):
          self.shape = tuple(shape)
          assert shape
          self.array_size = np.prod(shape)
          self.dtype = dtype
          self.element_strategy = element_strategy

      def do_draw(self, data):
          result = np.empty(dtype=self.dtype, shape=self.array_size)
          for i in hrange(self.array_size):
              result[i] = self.element_strategy.do_draw(data)
          return result.reshape(self.shape)
  \<close>
  Axis lengths are natural numbers, as numpy requires of a shape. An array is its dtype,
  its shape and its cells in row-major order, so reshaping a flat buffer keeps the cells
  and sets the shape.

  The numpy operations, as far as the class uses them:
  \<^item> \<open>np.prod\<close> of a tuple of Python integers multiplies in the 64-bit integer of the
    platform and wraps around: \<open>np.prod((2**32, 2**32))\<close> is \<open>0\<close>;
  \<^item> \<open>np.empty\<close> refuses a negative size with ValueError (memory limits are outside
    the model);
  \<^item> \<open>result[i] = v\<close> converts \<open>v\<close> to the dtype of the buffer or raises; the
    conversion is numpy's, a parameter \<open>setitem\<close> of the model that gives the value
    the cell then holds, or the exception;
  \<^item> \<open>reshape\<close> raises ValueError unless the product of the new shape is the size of
    the buffer.
\<close>

definition wrap_int64 :: "int \<Rightarrow> int" where
  "wrap_int64 i = (i + 2 ^ 63) mod 2 ^ 64 - 2 ^ 63"

definition np_prod :: "nat list \<Rightarrow> int" where
  "np_prod sh = wrap_int64 (int (prod_list sh))"

record array_strategy =
  shape :: "nat list"
  array_size :: int
  array_dtype :: dtype
  element_strategy :: strategy

record ndarray =
  nd_dtype :: dtype
  nd_shape :: "nat list"
  cells :: "pyval list"

definition ArrayStrategy_init :: "strategy \<Rightarrow> nat list \<Rightarrow> dtype \<Rightarrow> error + array_strategy" where
  "ArrayStrategy_init el sh dt =
     (if sh = [] then Inl AssertionError
      else Inr \<lparr>shape = sh, array_size = np_prod sh, array_dtype = dt,
                element_strategy = el\<rparr>)"

text \<open>
  The loop of \<open>do_draw\<close> from index \<open>i\<close> on: \<open>el_draw\<close> is the element strategy's
  own \<open>do_draw\<close>, which reads the input stream \<open>data\<close> and returns the stream it
  leaves, or raises; \<open>store\<close> is the conversion of the item assignment. An exception
  of an element draw or of the assignment leaves the loop.
\<close>

function fill_from ::
  "('d \<Rightarrow> error + (pyval \<times> 'd)) \<Rightarrow> (pyval \<Rightarrow> error + pyval) \<Rightarrow> nat \<Rightarrow> nat \<Rightarrow> pyval list \<Rightarrow> 'd
     \<Rightarrow> error + (pyval list \<times> 'd)"
where
  "fill_from el_draw store i n result data =
     (if i < n then
        (case el_draw data of
           Inl e \<Rightarrow> Inl e
         | Inr (v, data2) \<Rightarrow>
             (case store v of
                Inl e \<Rightarrow> Inl e
              | Inr c \<Rightarrow> fill_from el_draw store (Suc i) n (result[i := c]) data2))
      else Inr (result, data))"
  by pat_completeness auto
termination
  by (relation "measure (\<lambda>(el_draw, store, i, n, result, data). n - i)") auto

declare fill_from.simps [simp del]

text \<open>
  \<open>draw_of\<close> gives each strategy of the library its \<open>do_draw\<close> (Modelled from the
  spec: the draw contract \<open>draw(random_input_stream) -> value\<close>, deterministic given
  the stream). \<open>np.empty\<close> gives a buffer of \<open>array_size\<close> cells whose content is
  not set, written \<open>PNone\<close>.
\<close>

definition do_draw ::
  "(dtype \<Rightarrow> pyval \<Rightarrow> error + pyval) \<Rightarrow> (strategy \<Rightarrow> 'd \<Rightarrow> error + (pyval \<times> 'd))
     \<Rightarrow> array_strategy \<Rightarrow> 'd \<Rightarrow> error + (ndarray \<times> 'd)"
where
  "do_draw setitem draw_of self data =
     (if array_size self < 0 then Inl ValueError
      else
        (let n = nat (array_size self); result = replicate n PNone in
         case fill_from (draw_of (element_strategy self)) (setitem (array_dtype self))
                0 n result data of
           Inl e \<Rightarrow> Inl e
         | Inr (result2, data2) \<Rightarrow>
             (if int (prod_list (shape self)) = array_size self then
                Inr (\<lparr>nd_dtype = array_dtype self, nd_shape = shape self, cells = result2\<rparr>,
                     data2)
              else Inl ValueError)))"

text \<open>
  What \<open>arrays\<close> returns: a strategy of the library, an \<open>ArrayStrategy\<close>, or nothing
  (Python's \<open>None\<close>, when the function ends without a \<open>return\<close>).
\<close>

datatype search_strategy = Elements strategy | Array array_strategy

datatype shape_arg = ShapeInt nat | ShapeSeq "nat list"

text \<open>
  \<^verbatim>\<open>
  def arrays(dtype, shape, elements=None):
      if not isinstance(dtype, np.dtype):
          dtype = np.dtype(dtype)
      if elements is None:
          elements = from_dtype(dtype)
      if isinstance(shape, int):
          shape = (shape,)
      shape = tuple(shape)
      if not shape:
          if dtype.kind != u'O':
              return elements
      else:
          return ArrayStrategy(
              shape=shape,
              dtype=dtype,
              element_strategy=elements
          )
  \<close>
  The dtype argument is taken after \<open>np.dtype\<close> has normalised it. The \<open>else\<close>
  belongs to \<open>if not shape\<close>: an empty shape with kind \<open>O\<close> reaches the end of the
  function.
\<close>

definition arrays ::
  "(dtype \<Rightarrow> pyval \<Rightarrow> error + pyval) \<Rightarrow> dtype \<Rightarrow> shape_arg \<Rightarrow> strategy option
     \<Rightarrow> error + search_strategy option"
where
  "arrays scalar_type dt shape_in elements =
     (case (case elements of None \<Rightarrow> from_dtype scalar_type dt | Some el \<Rightarrow> Inr el) of
        Inl e \<Rightarrow> Inl e
      | Inr elements2 \<Rightarrow>
          (let shape2 = (case shape_in of ShapeInt n \<Rightarrow> [n] | ShapeSeq ns \<Rightarrow> ns) in
           if shape2 = [] then
             (if kind dt \<noteq> ''O'' then Inr (Some (Elements elements2)) else Inr None)
           else
             (case ArrayStrategy_init elements2 shape2 dt of
                Inl e \<Rightarrow> Inl e
              | Inr a \<Rightarrow> Inr (Some (Array a)))))"

text \<open>
  The outcome of the \<open>i\<close>-th draw (counting from 0) when \<open>el_draw\<close> is run again and
  again on one stream: the value drawn and the stream after it.
\<close>

fun nth_draw :: "('d \<Rightarrow> error + (pyval \<times> 'd)) \<Rightarrow> 'd \<Rightarrow> nat \<Rightarrow> error + (pyval \<times> 'd)" where
  "nth_draw el_draw data 0 = el_draw data"
| "nth_draw el_draw data (Suc i) =
     (case nth_draw el_draw data i of
        Inl e \<Rightarrow> Inl e
      | Inr (v, data2) \<Rightarrow> el_draw data2)"

text \<open>
  A \<open>do_draw\<close> for examples: the input stream is a list of integers and a draw from any
  strategy takes the next one; an empty stream raises.
\<close>

definition next_int :: "strategy \<Rightarrow> int list \<Rightarrow> error + (pyval \<times> int list)" where
  "next_int s data = (case data of [] \<Rightarrow> Inl ValueError | x # rest \<Rightarrow> Inr (PInt x, rest))"

text \<open>
  A conversion for examples: the buffer of an integer dtype keeps an integer and refuses
  any other value with ValueError, as numpy does for a string that is no number.
\<close>

definition int_setitem :: "dtype \<Rightarrow> pyval \<Rightarrow> error + pyval" where
  "int_setitem dt v = (case v of PInt i \<Rightarrow> Inr (PInt i) | _ \<Rightarrow> Inl ValueError)"

text \<open>A \<open>do_draw\<close> for examples that returns the string \<open>abc\<close> and reads no input.\<close>

definition draw_abc :: "strategy \<Rightarrow> unit \<Rightarrow> error + (pyval \<times> unit)" where
  "draw_abc s data = Inr (PStr ''abc'', data)"

section \<open>The spec's integer ranges\<close>

text \<open>
  The range the spec gives an integer dtype of \<open>itemsize\<close> \<open>s\<close> bytes:
  \<open>[0, 2^(8s) - 1]\<close> for kind \<open>u\<close> and \<open>[-2^(8s-1), 2^(8s-1) - 1]\<close> for kind
  \<open>i\<close>. This definition follows the spec, not the code.
\<close>

definition spec_machine_range :: "dtype \<Rightarrow> int \<times> int" where
  "spec_machine_range d =
     (if kind d = ''u'' then (0, 2 ^ (8 * itemsize d) - 1)
      else (- (2 ^ (8 * itemsize d - 1)), 2 ^ (8 * itemsize d - 1) - 1))"

text \<open>
  What is asked of numpy's scalar constructor: an integer inside the range of the dtype
  keeps its value.
\<close>

definition preserves_ints :: "(pyval \<Rightarrow> error + pyval) \<Rightarrow> int \<Rightarrow> int \<Rightarrow> bool" where
  "preserves_ints conv lo hi = (\<forall>i. lo \<le> i \<and> i \<le> hi \<longrightarrow> conv (PInt i) = Inr (PInt i))"

section \<open>Properties\<close>

subsection \<open>\<open>order_check\<close> and \<open>array_shapes\<close>\<close>

text \<open>
  Claim C10. \<open>order_check\<close> never raises InvalidArgument, whatever its inputs. When
  its guard \<open>floor > small > large\<close> holds, the call of \<open>check_argument\<close> passes
  \<open>condition\<close> both as the first positional argument (the message) and as the keyword
  \<open>condition=False\<close>, which Python refuses with a TypeError before the body runs;
  when the guard fails, \<open>order_check\<close> returns normally.
\<close>

theorem order_check_never_invalid_argument:
  "order_check name floor small large =
     (if (case floor of None \<Rightarrow> False | Some f \<Rightarrow> f > small) \<and> small > large
      then Inl (multiple_values ''condition'') else Inr ())
   \<and> (\<forall>message. order_check name floor small large \<noteq> Inl (InvalidArgument message))"
  by (simp add: order_check_def multiple_values_def split: option.splits)

theorem order_check_never_invalid_argument_witness:
  "order_check ''dims'' (Some 1) 0 (- 1) = Inl (multiple_values ''condition'')
   \<and> order_check ''dims'' (Some 1) 5 3 = Inr ()
   \<and> (\<forall>message. order_check ''dims'' (Some 1) 0 (- 1) \<noteq> Inl (InvalidArgument message))"
  using order_check_never_invalid_argument [of "''dims''" "Some 1" 0 "- 1"]
    order_check_never_invalid_argument [of "''dims''" "Some 1" 5 3]
  by (simp add: multiple_values_def)

text \<open>Bounds that respect the floor pass \<open>order_check\<close>.\<close>

lemma order_check_pass:
  "\<not> (f > small \<and> small > large) \<Longrightarrow> order_check name (Some f) small large = Inr ()"
  by (simp add: order_check_def)

lemma order_check_floor_ok: "1 \<le> a \<Longrightarrow> order_check name (Some 1) a b = Inr ()"
  by (rule order_check_pass) simp

lemma array_shapes_floor_ok:
  assumes "1 \<le> min_dims" "1 \<le> min_side"
  shows "array_shapes min_dims max_dims min_side max_side =
           Inr (Mapped py_tuple (Lists (Integers min_side max_side) min_dims max_dims))"
  by (simp add: array_shapes_def order_check_floor_ok [OF assms(1)]
        order_check_floor_ok [OF assms(2)])

lemma nonemptyI: "x \<in> S \<Longrightarrow> S \<noteq> {}"
  by blast

lemma all_ints:
  "(\<forall>v \<in> set vs. \<exists>i. v = PInt i \<and> lo \<le> i \<and> i \<le> hi) \<Longrightarrow>
   \<exists>ns. vs = map PInt ns \<and> (\<forall>n \<in> set ns. lo \<le> n \<and> n \<le> hi)"
proof (induction vs)
  case Nil
  then show ?case by simp
next
  case (Cons v vs)
  then obtain ns where ns: "vs = map PInt ns" "\<forall>n \<in> set ns. lo \<le> n \<and> n \<le> hi"
    by auto
  from Cons.prems obtain i where i: "v = PInt i" "lo \<le> i" "i \<le> hi"
    by auto
  have "v # vs = map PInt (i # ns) \<and> (\<forall>n \<in> set (i # ns). lo \<le> n \<and> n \<le> hi)"
    using ns i by simp
  then show ?case by (rule exI)
qed

lemma draws_MappedI: "Inr v \<in> draws s \<Longrightarrow> f v = r \<Longrightarrow> r \<in> draws (Mapped f s)"
  by force

lemma draws_shapes:
  assumes "r \<in> draws (Mapped py_tuple (Lists (Integers lo hi) a b))"
  shows "\<exists>ns. r = Inr (PTuple (map PInt ns)) \<and> a \<le> int (length ns) \<and> int (length ns) \<le> b
           \<and> (\<forall>n \<in> set ns. lo \<le> n \<and> n \<le> hi)"
proof -
  from assms obtain vs where vs: "r = py_tuple (PList vs)" "a \<le> int (length vs)"
      "int (length vs) \<le> b" "\<forall>v \<in> set vs. Inr v \<in> draws (Integers lo hi)"
    by auto
  have "\<forall>v \<in> set vs. \<exists>i. v = PInt i \<and> lo \<le> i \<and> i \<le> hi"
    using vs(4) by auto
  then obtain ns where ns: "vs = map PInt ns" "\<forall>n \<in> set ns. lo \<le> n \<and> n \<le> hi"
    using all_ints by blast
  show ?thesis
    using vs ns by (auto simp: py_tuple_def)
qed

lemma draws_shapes_nonempty:
  assumes "0 \<le> a" "a \<le> b" "lo \<le> hi"
  shows "Inr (PTuple (replicate (nat a) (PInt lo))) \<in> draws (Mapped py_tuple (Lists (Integers lo hi) a b))"
proof -
  let ?vs = "replicate (nat a) (PInt lo)"
  have "Inr (PList ?vs) \<in> draws (Lists (Integers lo hi) a b)"
    using assms by auto
  moreover have "py_tuple (PList ?vs) = Inr (PTuple ?vs)"
    by (simp add: py_tuple_def)
  ultimately show ?thesis
    by (rule draws_MappedI)
qed

text \<open>
  Claim C9. For valid bounds, \<open>1 \<le> min_dims \<le> max_dims\<close> and
  \<open>1 \<le> min_side \<le> max_side\<close>, \<open>array_shapes\<close> returns a generator, the
  generator can produce a shape, and every shape it produces is a tuple of integers whose
  length lies in \<open>[min_dims, max_dims]\<close> and whose items lie in
  \<open>[min_side, max_side]\<close>.
\<close>

theorem array_shapes_within_bounds:
  assumes "1 \<le> min_dims" "min_dims \<le> max_dims" "1 \<le> min_side" "min_side \<le> max_side"
  shows "\<exists>g. array_shapes min_dims max_dims min_side max_side = Inr g
           \<and> draws g \<noteq> {}
           \<and> (\<forall>r \<in> draws g. \<exists>ns. r = Inr (PTuple (map PInt ns))
                 \<and> min_dims \<le> int (length ns) \<and> int (length ns) \<le> max_dims
                 \<and> (\<forall>n \<in> set ns. min_side \<le> n \<and> n \<le> max_side))"
proof -
  let ?g = "Mapped py_tuple (Lists (Integers min_side max_side) min_dims max_dims)"
  have g: "array_shapes min_dims max_dims min_side max_side = Inr ?g"
    using assms(1) assms(3) by (rule array_shapes_floor_ok)
  have "Inr (PTuple (replicate (nat min_dims) (PInt min_side))) \<in> draws ?g"
    by (rule draws_shapes_nonempty) (use assms in simp_all)
  then have ne: "draws ?g \<noteq> {}"
    by (rule nonemptyI)
  have bounds: "\<forall>r \<in> draws ?g. \<exists>ns. r = Inr (PTuple (map PInt ns))
                 \<and> min_dims \<le> int (length ns) \<and> int (length ns) \<le> max_dims
                 \<and> (\<forall>n \<in> set ns. min_side \<le> n \<and> n \<le> max_side)"
  proof
    fix r
    assume "r \<in> draws ?g"
    then show "\<exists>ns. r = Inr (PTuple (map PInt ns))
                 \<and> min_dims \<le> int (length ns) \<and> int (length ns) \<le> max_dims
                 \<and> (\<forall>n \<in> set ns. min_side \<le> n \<and> n \<le> max_side)"
      by (rule draws_shapes)
  qed
  show ?thesis
    by (rule exI [of _ ?g]) (intro conjI g ne bounds)
qed

theorem array_shapes_within_bounds_witness:
  "\<exists>g. array_shapes 1 3 1 10 = Inr g
           \<and> draws g \<noteq> {}
           \<and> (\<forall>r \<in> draws g. \<exists>ns. r = Inr (PTuple (map PInt ns))
                 \<and> 1 \<le> int (length ns) \<and> int (length ns) \<le> 3
                 \<and> (\<forall>n \<in> set ns. 1 \<le> n \<and> n \<le> 10))"
  using array_shapes_within_bounds [of 1 3 1 10] by simp

text \<open>
  Claim C3 says that \<open>array_shapes\<close> fails with InvalidArgument when a minimum
  exceeds its maximum or falls below the floor 1. The code does not: with
  \<open>min_dims = 0\<close> the guard of \<open>order_check\<close> is false and the generator is
  returned, and it can produce the empty shape; with \<open>min_dims = 5 > max_dims = 3\<close> or
  \<open>min_side = 7 > max_side = 2\<close> the guard is false as well; and where the guard
  holds (\<open>min_dims = 0\<close>, \<open>max_dims = -1\<close>) the error is the TypeError of the
  malformed call.
\<close>

theorem array_shapes_accepts_bad_bounds:
  "array_shapes 0 3 1 10 = Inr (Mapped py_tuple (Lists (Integers 1 10) 0 3))
   \<and> Inr (PTuple []) \<in> draws (Mapped py_tuple (Lists (Integers 1 10) 0 3))
   \<and> array_shapes 5 3 1 10 = Inr (Mapped py_tuple (Lists (Integers 1 10) 5 3))
   \<and> array_shapes 1 3 7 2 = Inr (Mapped py_tuple (Lists (Integers 7 2) 1 3))
   \<and> array_shapes 0 (- 1) 1 10 = Inl (multiple_values ''condition'')"
proof -
  have "Inr (PTuple (replicate (nat 0) (PInt 1))) \<in> draws (Mapped py_tuple (Lists (Integers 1 10) 0 3))"
    by (rule draws_shapes_nonempty) simp_all
  then show ?thesis
    by (simp add: array_shapes_def order_check_def)
qed

theorem array_shapes_accepts_bad_bounds_witness:
  "\<exists>g. array_shapes 0 3 1 10 = Inr g \<and> Inr (PTuple []) \<in> draws g"
  using array_shapes_accepts_bad_bounds by blast

subsection \<open>\<open>from_dtype\<close>\<close>

lemma lshift_nonneg: "0 \<le> n \<Longrightarrow> lshift a n = Inr (a * 2 ^ nat n)"
  by (simp add: lshift_def)

lemma shift_count: "1 \<le> s \<Longrightarrow> nat (4 * int s - 1) = 4 * s - 1"
  by simp

lemma from_dtype_unsigned:
  assumes "kind d = ''u''" "1 \<le> itemsize d"
  shows "from_dtype scalar_type d =
           Inr (Mapped (scalar_type d) (Integers 0 (2 ^ (4 * itemsize d - 1))))"
proof -
  have "lshift 1 (4 * int (itemsize d) - 1) = Inr (2 ^ (4 * itemsize d - 1))"
    using assms(2) by (simp add: lshift_nonneg shift_count)
  then show ?thesis
    using assms(1) by (simp add: from_dtype_def)
qed

lemma from_dtype_signed:
  assumes "kind d = ''i''" "1 \<le> itemsize d"
  shows "from_dtype scalar_type d =
           Inr (Mapped (scalar_type d)
                  (Integers (- (2 ^ (4 * itemsize d - 1))) (2 ^ (4 * itemsize d - 1) - 1)))"
proof -
  have "lshift (- 1) (4 * int (itemsize d) - 1) = Inr (- (2 ^ (4 * itemsize d - 1)))"
    using assms(2) by (simp add: lshift_nonneg shift_count)
  then show ?thesis
    using assms(1) by (simp add: from_dtype_def)
qed

lemma from_dtype_integer_zero:
  assumes "kind d = ''u'' \<or> kind d = ''i''" "itemsize d = 0"
  shows "from_dtype scalar_type d = Inl ValueError"
  using assms by (auto simp: from_dtype_def lshift_def)

lemma draws_mapped_integers:
  assumes "preserves_ints conv lo' hi'"
    and "r \<in> draws (Mapped conv (Integers lo hi))"
    and "lo' \<le> lo" "hi \<le> hi'"
  shows "\<exists>i. r = Inr (PInt i) \<and> lo \<le> i \<and> i \<le> hi"
proof -
  from assms(2) obtain i where i: "r = conv (PInt i)" "lo \<le> i" "i \<le> hi"
    by auto
  have "conv (PInt i) = Inr (PInt i)"
    using assms(1,3,4) i(2,3) by (simp add: preserves_ints_def)
  with i show ?thesis by blast
qed

lemma draws_mapped_integers_lo:
  assumes "preserves_ints conv lo' hi'" "lo' \<le> lo" "hi \<le> hi'" "lo \<le> hi"
  shows "Inr (PInt lo) \<in> draws (Mapped conv (Integers lo hi))"
proof -
  have "Inr (PInt lo) \<in> draws (Integers lo hi)"
    using assms(4) by simp
  moreover have "conv (PInt lo) = Inr (PInt lo)"
    using assms by (simp add: preserves_ints_def)
  ultimately show ?thesis by (rule draws_MappedI)
qed

lemma half_width_le: "1 \<le> s \<Longrightarrow> (2::int) ^ (4 * s - 1) \<le> 2 ^ (8 * s - 1)"
  by (rule power_increasing) simp_all

lemma half_width_lt: "1 \<le> s \<Longrightarrow> (2::int) ^ (4 * s - 1) \<le> 2 ^ (8 * s) - 1"
proof -
  assume "1 \<le> s"
  then have "(2::int) ^ (4 * s - 1) < 2 ^ (8 * s)"
    by (intro power_strict_increasing) simp_all
  then show ?thesis by simp
qed


text \<open>
  Claim C1. For an integer dtype of \<open>itemsize\<close> \<open>s\<close>, every value drawn from the
  generator \<open>from_dtype\<close> returns lies in the machine range of \<open>s\<close> bytes,
  \<open>[0, 2^(8s) - 1]\<close> for kind \<open>u\<close> and \<open>[-2^(8s-1), 2^(8s-1) - 1]\<close> for
  kind \<open>i\<close>, numpy's scalar constructor keeping the integers of that range. For
  \<open>s \<ge> 1\<close> a generator is returned and it has a value to draw; for \<open>s = 0\<close> the
  shift count is negative and no generator is returned.
\<close>

theorem from_dtype_integer_range:
  assumes "kind d = ''u'' \<or> kind d = ''i''"
    and "spec_machine_range d = (lo, hi)"
    and "preserves_ints (scalar_type d) lo hi"
  shows "(itemsize d = 0 \<and> from_dtype scalar_type d = Inl ValueError)
         \<or> (\<exists>g. from_dtype scalar_type d = Inr g \<and> draws g \<noteq> {}
               \<and> (\<forall>r \<in> draws g. \<exists>i. r = Inr (PInt i) \<and> lo \<le> i \<and> i \<le> hi))"
proof (cases "itemsize d = 0")
  case True
  then show ?thesis
    using assms(1) by (simp add: from_dtype_integer_zero)
next
  case False
  then have s: "1 \<le> itemsize d" by simp
  let ?h = "(2::int) ^ (4 * itemsize d - 1)"
  have pos: "0 < ?h" by simp
  from assms(1) show ?thesis
  proof
    assume u: "kind d = ''u''"
    let ?g = "Mapped (scalar_type d) (Integers 0 ?h)"
    have g: "from_dtype scalar_type d = Inr ?g"
      using u s by (rule from_dtype_unsigned)
    have lo: "lo = 0" and hi: "hi = 2 ^ (8 * itemsize d) - 1"
      using assms(2) u by (simp_all add: spec_machine_range_def)
    have le: "?h \<le> hi"
      unfolding hi using s by (rule half_width_lt)
    have lo_le: "lo \<le> 0"
      using lo by simp
    have "(0::int) \<le> ?h"
      by simp
    with lo_le le have "Inr (PInt 0) \<in> draws ?g"
      by (intro draws_mapped_integers_lo [OF assms(3)])
    then have ne: "draws ?g \<noteq> {}" by (rule nonemptyI)
    have inside: "\<forall>r \<in> draws ?g. \<exists>i. r = Inr (PInt i) \<and> lo \<le> i \<and> i \<le> hi"
    proof
      fix r
      assume "r \<in> draws ?g"
      with assms(3) have "\<exists>i. r = Inr (PInt i) \<and> 0 \<le> i \<and> i \<le> ?h"
        using lo_le le by (rule draws_mapped_integers)
      then obtain i where "r = Inr (PInt i)" "0 \<le> i" "i \<le> ?h"
        by blast
      with lo_le le have "r = Inr (PInt i) \<and> lo \<le> i \<and> i \<le> hi"
        by linarith
      then show "\<exists>i. r = Inr (PInt i) \<and> lo \<le> i \<and> i \<le> hi" ..
    qed
    have "\<exists>g. from_dtype scalar_type d = Inr g \<and> draws g \<noteq> {}
               \<and> (\<forall>r \<in> draws g. \<exists>i. r = Inr (PInt i) \<and> lo \<le> i \<and> i \<le> hi)"
      by (rule exI [of _ ?g]) (intro conjI g ne inside)
    then show ?thesis ..
  next
    assume i: "kind d = ''i''"
    let ?g = "Mapped (scalar_type d) (Integers (- ?h) (?h - 1))"
    have g: "from_dtype scalar_type d = Inr ?g"
      using i s by (rule from_dtype_signed)
    have lo: "lo = - (2 ^ (8 * itemsize d - 1))" and hi: "hi = 2 ^ (8 * itemsize d - 1) - 1"
      using assms(2) i by (simp_all add: spec_machine_range_def)
    have le: "?h \<le> 2 ^ (8 * itemsize d - 1)"
      using s by (rule half_width_le)
    have lo_le: "lo \<le> - ?h" and le_hi: "?h - 1 \<le> hi"
      unfolding lo hi using le by linarith+
    have "- ?h \<le> ?h - 1"
      using pos by linarith
    with lo_le le_hi have "Inr (PInt (- ?h)) \<in> draws ?g"
      by (intro draws_mapped_integers_lo [OF assms(3)])
    then have ne: "draws ?g \<noteq> {}" by (rule nonemptyI)
    have inside: "\<forall>r \<in> draws ?g. \<exists>i. r = Inr (PInt i) \<and> lo \<le> i \<and> i \<le> hi"
    proof
      fix r
      assume "r \<in> draws ?g"
      with assms(3) have "\<exists>i. r = Inr (PInt i) \<and> - ?h \<le> i \<and> i \<le> ?h - 1"
        using lo_le le_hi by (rule draws_mapped_integers)
      then obtain i where "r = Inr (PInt i)" "- ?h \<le> i" "i \<le> ?h - 1"
        by blast
      with lo_le le_hi have "r = Inr (PInt i) \<and> lo \<le> i \<and> i \<le> hi"
        by linarith
      then show "\<exists>i. r = Inr (PInt i) \<and> lo \<le> i \<and> i \<le> hi" ..
    qed
    have "\<exists>g. from_dtype scalar_type d = Inr g \<and> draws g \<noteq> {}
               \<and> (\<forall>r \<in> draws g. \<exists>i. r = Inr (PInt i) \<and> lo \<le> i \<and> i \<le> hi)"
      by (rule exI [of _ ?g]) (intro conjI g ne inside)
    then show ?thesis ..
  qed
qed

theorem from_dtype_integer_range_witness:
  "(\<exists>g. from_dtype (\<lambda>d. Inr) \<lparr>kind = ''i'', itemsize = 1, dtype_name = ''int8''\<rparr> = Inr g
        \<and> draws g \<noteq> {}
        \<and> (\<forall>r \<in> draws g. \<exists>i. r = Inr (PInt i) \<and> - 128 \<le> i \<and> i \<le> 127))
   \<and> (\<exists>g. from_dtype (\<lambda>d. Inr) \<lparr>kind = ''u'', itemsize = 2, dtype_name = ''uint16''\<rparr> = Inr g
        \<and> draws g \<noteq> {}
        \<and> (\<forall>r \<in> draws g. \<exists>i. r = Inr (PInt i) \<and> 0 \<le> i \<and> i \<le> 65535))"
  using from_dtype_integer_range [of "\<lparr>kind = ''i'', itemsize = 1, dtype_name = ''int8''\<rparr>"
          "- 128" 127 "\<lambda>d. Inr"]
    from_dtype_integer_range [of "\<lparr>kind = ''u'', itemsize = 2, dtype_name = ''uint16''\<rparr>"
          0 65535 "\<lambda>d. Inr"]
  by (simp add: spec_machine_range_def preserves_ints_def del: draws.simps)

text \<open>The bounds the code computes, on the two dtypes of the spec's examples.\<close>

lemma from_dtype_int8_uint16:
  "from_dtype scalar_type \<lparr>kind = ''i'', itemsize = 1, dtype_name = ''int8''\<rparr>
     = Inr (Mapped (scalar_type \<lparr>kind = ''i'', itemsize = 1, dtype_name = ''int8''\<rparr>)
              (Integers (- 8) 7))
   \<and> from_dtype scalar_type \<lparr>kind = ''u'', itemsize = 2, dtype_name = ''uint16''\<rparr>
     = Inr (Mapped (scalar_type \<lparr>kind = ''u'', itemsize = 2, dtype_name = ''uint16''\<rparr>)
              (Integers 0 128))"
  by (simp add: from_dtype_def lshift_def)

subsection \<open>\<open>arrays\<close> with an empty shape\<close>

text \<open>
  Claim C5. For a dtype whose kind is not \<open>O\<close>, \<open>arrays(dtype, shape=())\<close>
  returns the element generator itself and no array wrapper: the generator passed as
  \<open>elements\<close>, or with \<open>elements\<close> omitted just what \<open>from_dtype(dtype)\<close>
  gives (its generator, or its exception when it has none for the kind).
\<close>

theorem arrays_empty_shape_collapses:
  assumes "kind dt \<noteq> ''O''"
  shows "arrays scalar_type dt (ShapeSeq []) (Some el) = Inr (Some (Elements el))
         \<and> arrays scalar_type dt (ShapeSeq []) None =
             (case from_dtype scalar_type dt of
                Inl e \<Rightarrow> Inl e
              | Inr g \<Rightarrow> Inr (Some (Elements g)))"
  using assms by (simp add: arrays_def split: sum.splits)

theorem arrays_empty_shape_collapses_witness:
  "arrays (\<lambda>d. Inr) \<lparr>kind = ''u'', itemsize = 1, dtype_name = ''uint8''\<rparr> (ShapeSeq []) (Some Booleans)
     = Inr (Some (Elements Booleans))
   \<and> arrays (\<lambda>d. Inr) \<lparr>kind = ''u'', itemsize = 1, dtype_name = ''uint8''\<rparr> (ShapeSeq []) None
     = Inr (Some (Elements (Mapped Inr (Integers 0 8))))
   \<and> from_dtype (\<lambda>d. Inr) \<lparr>kind = ''u'', itemsize = 1, dtype_name = ''uint8''\<rparr>
     = Inr (Mapped Inr (Integers 0 8))"
  using arrays_empty_shape_collapses
          [of "\<lparr>kind = ''u'', itemsize = 1, dtype_name = ''uint8''\<rparr>" "\<lambda>d. Inr" Booleans]
  by (simp add: from_dtype_def lshift_def)

text \<open>\<open>from_dtype\<close> has no generator for the object kind.\<close>

lemma no_inference_object:
  "from_dtype scalar_type \<lparr>kind = ''O'', itemsize = 8, dtype_name = ''object''\<rparr>
     = Inl (InvalidArgument ''No strategy inference for object'')"
  by (simp add: from_dtype_def str_format_def py_str_def)

text \<open>
  Claim C2 says that \<open>arrays(object_dtype, shape=())\<close> returns an array generator
  that draws 0-dimensional arrays. The code returns no generator: with \<open>elements\<close>
  given the function ends without a \<open>return\<close> and the result is \<open>None\<close>; with
  \<open>elements\<close> omitted \<open>from_dtype\<close> raises InvalidArgument; and
  \<open>ArrayStrategy\<close> itself refuses an empty shape by its \<open>assert\<close>.
\<close>

theorem arrays_object_empty_shape:
  "arrays scalar_type \<lparr>kind = ''O'', itemsize = 8, dtype_name = ''object''\<rparr> (ShapeSeq [])
      (Some (Just PNone)) = Inr None
   \<and> arrays scalar_type \<lparr>kind = ''O'', itemsize = 8, dtype_name = ''object''\<rparr> (ShapeSeq []) None
       = Inl (InvalidArgument ''No strategy inference for object'')
   \<and> ArrayStrategy_init (Just PNone) [] \<lparr>kind = ''O'', itemsize = 8, dtype_name = ''object''\<rparr>
       = Inl AssertionError"
  by (simp add: arrays_def no_inference_object ArrayStrategy_init_def)

subsection \<open>The endianness check of \<open>dtype_factory\<close>\<close>

text \<open>
  The message of the endianness check has two \<open>{}\<close> fields and the call gives one
  argument, so formatting it raises IndexError.
\<close>

lemma unknown_endianness_message:
  "str_format ''Unknown endianness: was {}, must be in {}'' [a] [] = Inl IndexError"
  by (simp add: str_format_def)

text \<open>
  Claim C8 says that an endianness outside \<open>?\<close>, \<open><\<close>, \<open>=\<close>, \<open>>\<close>
  fails with InvalidArgument and a message naming the value. The code fails with
  IndexError instead, for every kind, sizes and unrecognised endianness: the exception
  is raised while the message is formatted, before InvalidArgument is built.
\<close>

theorem dtype_factory_unknown_endianness:
  assumes "endianness \<notin> set valid_endian"
  shows "dtype_factory kind1 sizes valid_sizes endianness = Inl IndexError"
  using assms
  by (simp add: dtype_factory_def check_argument_def format_method_def
        unknown_endianness_message)

theorem dtype_factory_unknown_endianness_witness:
  "dtype_factory ''u'' (SizeSeq [8, 16, 32, 64]) (Some [8, 16, 32, 64]) ''x'' = Inl IndexError
   \<and> unsigned_integer_dtypes Inr ''x'' (SizeSeq [8, 16, 32, 64]) = Inl IndexError"
  using dtype_factory_unknown_endianness [of "''x''" "''u''" "SizeSeq [8, 16, 32, 64]" "Some [8, 16, 32, 64]"]
  by (simp add: valid_endian_def unsigned_integer_dtypes_def defines_dtype_strategy_def)

subsection \<open>Drawing an array\<close>

text \<open>The \<open>k+1\<close>-th draw from a stream is the \<open>k\<close>-th draw after the first.\<close>

lemma nth_draw_shift:
  "el_draw data = Inr (v, data2) \<Longrightarrow> nth_draw el_draw data (Suc k) = nth_draw el_draw data2 k"
  by (induction k) simp_all

lemma fill_from_done: "fill_from el_draw store n n result data = Inr (result, data)"
  by (simp add: fill_from.simps)

lemma fill_from_step:
  "i < n \<Longrightarrow> el_draw data = Inr (v, data2) \<Longrightarrow> store v = Inr c \<Longrightarrow>
   fill_from el_draw store i n result data
     = fill_from el_draw store (Suc i) n (result[i := c]) data2"
  by (subst fill_from.simps) simp

lemma wrap_int64_small: "0 \<le> i \<Longrightarrow> i < 2 ^ 63 \<Longrightarrow> wrap_int64 i = i"
  by (simp add: wrap_int64_def)

lemma np_prod_small: "prod_list sh < 2 ^ 63 \<Longrightarrow> np_prod sh = int (prod_list sh)"
proof -
  assume "prod_list sh < 2 ^ 63"
  then have "int (prod_list sh) < int (2 ^ 63)"
    by (simp only: of_nat_less_iff)
  then have "int (prod_list sh) < 2 ^ 63"
    by simp
  then show ?thesis
    by (simp add: np_prod_def wrap_int64_small)
qed

text \<open>
  The loop invariant: started at index \<open>i\<close> with \<open>m\<close> cells to go, the loop
  leaves the cells below \<open>i\<close> as they are, stores the converted \<open>k\<close>-th draw in
  cell \<open>i + k\<close> and returns the stream left by the last draw.
\<close>

lemma fill_from_draws:
  assumes "i + m = n" "length result = n"
    and "\<forall>k < m. \<exists>v d c. nth_draw el_draw data k = Inr (v, d) \<and> store v = Inr c"
  shows "\<exists>result2 data2.
           fill_from el_draw store i n result data = Inr (result2, data2)
           \<and> length result2 = n
           \<and> (\<forall>j < i. result2 ! j = result ! j)
           \<and> (\<forall>k < m. \<exists>v d. nth_draw el_draw data k = Inr (v, d)
                              \<and> store v = Inr (result2 ! (i + k)))
           \<and> (m = 0 \<longrightarrow> data2 = data)
           \<and> (0 < m \<longrightarrow> (\<exists>v. nth_draw el_draw data (m - 1) = Inr (v, data2)))"
  using assms
proof (induction m arbitrary: i result data)
  case 0
  then have "i = n" by simp
  then show ?case
    using "0.prems"(2) by (simp add: fill_from_done)
next
  case (Suc m)
  from Suc.prems(1) have i: "i < n" by simp
  from Suc.prems(3) obtain v d1 c where first: "nth_draw el_draw data 0 = Inr (v, d1)"
    and stored: "store v = Inr c"
    by blast
  then have el: "el_draw data = Inr (v, d1)" by simp
  have step: "fill_from el_draw store i n result data
                = fill_from el_draw store (Suc i) n (result[i := c]) d1"
    using i el stored by (rule fill_from_step)
  have shift: "nth_draw el_draw data (Suc k) = nth_draw el_draw d1 k" for k
    using el by (rule nth_draw_shift)
  have rest: "\<forall>k < m. \<exists>v d c. nth_draw el_draw d1 k = Inr (v, d) \<and> store v = Inr c"
  proof (intro allI impI)
    fix k assume "k < m"
    then have "Suc k < Suc m" by simp
    with Suc.prems(3) obtain w d c' where "nth_draw el_draw data (Suc k) = Inr (w, d)"
      and "store w = Inr c'"
      by blast
    then show "\<exists>v d c. nth_draw el_draw d1 k = Inr (v, d) \<and> store v = Inr c"
      using shift [of k] by (simp del: nth_draw.simps)
  qed
  have "Suc i + m = n" using Suc.prems(1) by simp
  moreover have "length (result[i := c]) = n" using Suc.prems(2) by simp
  ultimately obtain result2 data2 where
    r: "fill_from el_draw store (Suc i) n (result[i := c]) d1 = Inr (result2, data2)"
    and len: "length result2 = n"
    and keep: "\<forall>j < Suc i. result2 ! j = (result[i := c]) ! j"
    and cellsr: "\<forall>k < m. \<exists>v d. nth_draw el_draw d1 k = Inr (v, d)
                                \<and> store v = Inr (result2 ! (Suc i + k))"
    and d0: "m = 0 \<longrightarrow> data2 = d1"
    and dm: "0 < m \<longrightarrow> (\<exists>v. nth_draw el_draw d1 (m - 1) = Inr (v, data2))"
    using Suc.IH [OF _ _ rest, of "Suc i" "result[i := c]"] by blast
  have at_i: "result2 ! i = c"
    using keep i Suc.prems(2) by simp
  have before: "\<forall>j < i. result2 ! j = result ! j"
    using keep by simp
  have cells: "\<forall>k < Suc m. \<exists>v d. nth_draw el_draw data k = Inr (v, d)
                                  \<and> store v = Inr (result2 ! (i + k))"
  proof (intro allI impI)
    fix k assume k: "k < Suc m"
    show "\<exists>v d. nth_draw el_draw data k = Inr (v, d) \<and> store v = Inr (result2 ! (i + k))"
    proof (cases k)
      case 0
      then show ?thesis using first stored at_i by simp
    next
      case (Suc k')
      then have "k' < m" using k by simp
      with cellsr obtain w d where "nth_draw el_draw d1 k' = Inr (w, d)"
        and "store w = Inr (result2 ! (Suc i + k'))"
        by blast
      then have "nth_draw el_draw data (Suc k') = Inr (w, d)
                 \<and> store w = Inr (result2 ! (i + Suc k'))"
        using shift [of k'] by (simp del: nth_draw.simps)
      then show ?thesis unfolding Suc by blast
    qed
  qed
  have last: "\<exists>v. nth_draw el_draw data (Suc m - 1) = Inr (v, data2)"
  proof (cases m)
    case 0
    then show ?thesis using d0 first by simp
  next
    case (Suc m')
    with dm obtain w where "nth_draw el_draw d1 m' = Inr (w, data2)"
      by (auto simp del: nth_draw.simps)
    then have "nth_draw el_draw data (Suc m') = Inr (w, data2)"
      using shift [of m'] by (simp del: nth_draw.simps)
    then show ?thesis unfolding Suc by (simp del: nth_draw.simps)
  qed
  have "fill_from el_draw store i n result data = Inr (result2, data2)
           \<and> length result2 = n
           \<and> (\<forall>j < i. result2 ! j = result ! j)
           \<and> (\<forall>k < Suc m. \<exists>v d. nth_draw el_draw data k = Inr (v, d)
                                  \<and> store v = Inr (result2 ! (i + k)))
           \<and> (Suc m = 0 \<longrightarrow> data2 = data)
           \<and> (0 < Suc m \<longrightarrow> (\<exists>v. nth_draw el_draw data (Suc m - 1) = Inr (v, data2)))"
    using step r len before cells last by simp
  then show ?case by blast
qed

text \<open>
  Claim C4, within the limits of numpy. An \<open>ArrayStrategy\<close> has a non-empty shape. When
  \<open>n = product(shape)\<close> is below \<open>2^63\<close> and each of the first \<open>n\<close> draws of the
  element strategy on the one input stream returns a value that the item assignment
  can convert to the dtype, a draw returns an array of that shape and dtype whose flat
  buffer has \<open>n\<close> cells, cell \<open>k\<close> holding the converted value of the \<open>k\<close>-th draw;
  exactly \<open>n\<close> draws are made: the stream returned is the one the \<open>n\<close>-th draw
  leaves (the given stream when \<open>n = 0\<close>).
\<close>

theorem do_draw_fills_row_major:
  assumes "ArrayStrategy_init el sh dt = Inr self"
    and "prod_list sh < 2 ^ 63"
    and "\<forall>k < prod_list sh. \<exists>v d c.
           nth_draw (draw_of el) data k = Inr (v, d) \<and> setitem dt v = Inr c"
  shows "sh \<noteq> []
         \<and> (\<exists>arr data2.
               do_draw setitem draw_of self data = Inr (arr, data2)
               \<and> nd_shape arr = sh \<and> nd_dtype arr = dt
               \<and> length (cells arr) = prod_list sh
               \<and> (\<forall>k < prod_list sh. \<exists>v d.
                     nth_draw (draw_of el) data k = Inr (v, d)
                     \<and> setitem dt v = Inr (cells arr ! k))
               \<and> (prod_list sh = 0 \<longrightarrow> data2 = data)
               \<and> (0 < prod_list sh
                    \<longrightarrow> (\<exists>v. nth_draw (draw_of el) data (prod_list sh - 1) = Inr (v, data2))))"
proof -
  let ?n = "prod_list sh"
  from assms(1) have sh: "sh \<noteq> []"
    by (auto simp: ArrayStrategy_init_def split: if_splits)
  have size: "np_prod sh = int ?n"
    using assms(2) by (rule np_prod_small)
  from sh assms(1) have self:
    "self = \<lparr>shape = sh, array_size = int ?n, array_dtype = dt, element_strategy = el\<rparr>"
    by (simp add: ArrayStrategy_init_def size)
  have "\<exists>result2 data2.
          fill_from (draw_of el) (setitem dt) 0 ?n (replicate ?n PNone) data = Inr (result2, data2)
          \<and> length result2 = ?n
          \<and> (\<forall>j < 0. result2 ! j = replicate ?n PNone ! j)
          \<and> (\<forall>k < ?n. \<exists>v d. nth_draw (draw_of el) data k = Inr (v, d)
                               \<and> setitem dt v = Inr (result2 ! (0 + k)))
          \<and> (?n = 0 \<longrightarrow> data2 = data)
          \<and> (0 < ?n \<longrightarrow> (\<exists>v. nth_draw (draw_of el) data (?n - 1) = Inr (v, data2)))"
    by (rule fill_from_draws [OF _ _ assms(3)]) simp_all
  then obtain result2 data2 where
    r: "fill_from (draw_of el) (setitem dt) 0 ?n (replicate ?n PNone) data = Inr (result2, data2)"
    and len: "length result2 = ?n"
    and cellsr: "\<forall>k < ?n. \<exists>v d. nth_draw (draw_of el) data k = Inr (v, d)
                                 \<and> setitem dt v = Inr (result2 ! (0 + k))"
    and d0: "?n = 0 \<longrightarrow> data2 = data"
    and dn: "0 < ?n \<longrightarrow> (\<exists>v. nth_draw (draw_of el) data (?n - 1) = Inr (v, data2))"
    by (elim exE conjE) (rule that)
  let ?arr = "\<lparr>nd_dtype = dt, nd_shape = sh, cells = result2\<rparr>"
  have draw: "do_draw setitem draw_of self data = Inr (?arr, data2)"
    using r by (simp add: do_draw_def self)
  have body: "do_draw setitem draw_of self data = Inr (?arr, data2)
        \<and> nd_shape ?arr = sh \<and> nd_dtype ?arr = dt
        \<and> length (cells ?arr) = ?n
        \<and> (\<forall>k < ?n. \<exists>v d. nth_draw (draw_of el) data k = Inr (v, d)
                             \<and> setitem dt v = Inr (cells ?arr ! k))
        \<and> (?n = 0 \<longrightarrow> data2 = data)
        \<and> (0 < ?n \<longrightarrow> (\<exists>v. nth_draw (draw_of el) data (?n - 1) = Inr (v, data2)))"
    using draw len cellsr d0 dn by simp
  show ?thesis
    by (rule conjI [OF sh]) (rule exI [of _ ?arr], rule exI [of _ data2], rule body)
qed

text \<open>Shape \<open>(2, 3)\<close> on the stream \<open>1, 2, ..., 7\<close>: six draws, the seventh item left.\<close>

lemma six_draws:
  "\<forall>k < prod_list [2, 3 :: nat]. \<exists>v d c.
     nth_draw (next_int (Integers 0 9)) [1, 2, 3, 4, 5, 6, 7] k = Inr (v, d)
     \<and> int_setitem \<lparr>kind = ''i'', itemsize = 8, dtype_name = ''int64''\<rparr> v = Inr c"
  by (simp add: less_Suc_eq numeral_eq_Suc next_int_def int_setitem_def all_conj_distrib)

theorem do_draw_fills_row_major_witness:
  "([2, 3] \<noteq> ([] :: nat list)
    \<and> (\<exists>arr data2.
          do_draw int_setitem next_int
            \<lparr>shape = [2, 3], array_size = np_prod [2, 3],
               array_dtype = \<lparr>kind = ''i'', itemsize = 8, dtype_name = ''int64''\<rparr>,
               element_strategy = Integers 0 9\<rparr> [1, 2, 3, 4, 5, 6, 7] = Inr (arr, data2)
          \<and> nd_shape arr = [2, 3]
          \<and> nd_dtype arr = \<lparr>kind = ''i'', itemsize = 8, dtype_name = ''int64''\<rparr>
          \<and> length (cells arr) = prod_list [2, 3 :: nat]
          \<and> (\<forall>k < prod_list [2, 3 :: nat]. \<exists>v d.
                nth_draw (next_int (Integers 0 9)) [1, 2, 3, 4, 5, 6, 7] k = Inr (v, d)
                \<and> int_setitem \<lparr>kind = ''i'', itemsize = 8, dtype_name = ''int64''\<rparr> v
                    = Inr (cells arr ! k))
          \<and> (prod_list [2, 3 :: nat] = 0 \<longrightarrow> data2 = [1, 2, 3, 4, 5, 6, 7])
          \<and> (0 < prod_list [2, 3 :: nat]
               \<longrightarrow> (\<exists>v. nth_draw (next_int (Integers 0 9)) [1, 2, 3, 4, 5, 6, 7]
                           (prod_list [2, 3 :: nat] - 1) = Inr (v, data2)))))
   \<and> do_draw int_setitem next_int
        \<lparr>shape = [2, 3], array_size = 6,
           array_dtype = \<lparr>kind = ''i'', itemsize = 8, dtype_name = ''int64''\<rparr>,
           element_strategy = Integers 0 9\<rparr> [1, 2, 3, 4, 5, 6, 7]
      = Inr (\<lparr>nd_dtype = \<lparr>kind = ''i'', itemsize = 8, dtype_name = ''int64''\<rparr>,
               nd_shape = [2, 3],
               cells = [PInt 1, PInt 2, PInt 3, PInt 4, PInt 5, PInt 6]\<rparr>, [7])"
proof (rule conjI)
  have init: "ArrayStrategy_init (Integers 0 9) [2, 3]
                \<lparr>kind = ''i'', itemsize = 8, dtype_name = ''int64''\<rparr>
              = Inr \<lparr>shape = [2, 3], array_size = np_prod [2, 3],
                      array_dtype = \<lparr>kind = ''i'', itemsize = 8, dtype_name = ''int64''\<rparr>,
                      element_strategy = Integers 0 9\<rparr>"
    by (simp add: ArrayStrategy_init_def)
  have small: "prod_list [2, 3 :: nat] < 2 ^ 63"
    by simp
  show "[2, 3] \<noteq> ([] :: nat list)
    \<and> (\<exists>arr data2.
          do_draw int_setitem next_int
            \<lparr>shape = [2, 3], array_size = np_prod [2, 3],
               array_dtype = \<lparr>kind = ''i'', itemsize = 8, dtype_name = ''int64''\<rparr>,
               element_strategy = Integers 0 9\<rparr> [1, 2, 3, 4, 5, 6, 7] = Inr (arr, data2)
          \<and> nd_shape arr = [2, 3]
          \<and> nd_dtype arr = \<lparr>kind = ''i'', itemsize = 8, dtype_name = ''int64''\<rparr>
          \<and> length (cells arr) = prod_list [2, 3 :: nat]
          \<and> (\<forall>k < prod_list [2, 3 :: nat]. \<exists>v d.
                nth_draw (next_int (Integers 0 9)) [1, 2, 3, 4, 5, 6, 7] k = Inr (v, d)
                \<and> int_setitem \<lparr>kind = ''i'', itemsize = 8, dtype_name = ''int64''\<rparr> v
                    = Inr (cells arr ! k))
          \<and> (prod_list [2, 3 :: nat] = 0 \<longrightarrow> data2 = [1, 2, 3, 4, 5, 6, 7])
          \<and> (0 < prod_list [2, 3 :: nat]
               \<longrightarrow> (\<exists>v. nth_draw (next_int (Integers 0 9)) [1, 2, 3, 4, 5, 6, 7]
                           (prod_list [2, 3 :: nat] - 1) = Inr (v, data2))))"
    using init small six_draws by (rule do_draw_fills_row_major)
next
  show "do_draw int_setitem next_int
        \<lparr>shape = [2, 3], array_size = 6,
           array_dtype = \<lparr>kind = ''i'', itemsize = 8, dtype_name = ''int64''\<rparr>,
           element_strategy = Integers 0 9\<rparr> [1, 2, 3, 4, 5, 6, 7]
      = Inr (\<lparr>nd_dtype = \<lparr>kind = ''i'', itemsize = 8, dtype_name = ''int64''\<rparr>,
               nd_shape = [2, 3],
               cells = [PInt 1, PInt 2, PInt 3, PInt 4, PInt 5, PInt 6]\<rparr>, [7])"
    by (simp add: do_draw_def fill_from.simps next_int_def int_setitem_def numeral_eq_Suc)
qed

text \<open>
  Claim C4 as the spec words it, for every array generator with a non-empty shape,
  fails on two inputs. With shape \<open>(2^32, 2^32)\<close> the wrapped product is \<open>0\<close>: the
  generator is built, the draw fills no cell and \<open>reshape\<close> raises ValueError. With
  shape \<open>(2, 3)\<close>, an integer dtype and elements that are strings, the first assignment
  raises ValueError.
\<close>

theorem do_draw_counterexample:
  "ArrayStrategy_init (Integers 0 9) [4294967296, 4294967296]
       \<lparr>kind = ''i'', itemsize = 8, dtype_name = ''int64''\<rparr>
     = Inr \<lparr>shape = [4294967296, 4294967296], array_size = 0,
             array_dtype = \<lparr>kind = ''i'', itemsize = 8, dtype_name = ''int64''\<rparr>,
             element_strategy = Integers 0 9\<rparr>
   \<and> do_draw int_setitem next_int
        \<lparr>shape = [4294967296, 4294967296], array_size = 0,
           array_dtype = \<lparr>kind = ''i'', itemsize = 8, dtype_name = ''int64''\<rparr>,
           element_strategy = Integers 0 9\<rparr> [1, 2, 3, 4, 5, 6, 7]
       = Inl ValueError
   \<and> ArrayStrategy_init Text [2, 3] \<lparr>kind = ''i'', itemsize = 8, dtype_name = ''int64''\<rparr>
     = Inr \<lparr>shape = [2, 3], array_size = 6,
             array_dtype = \<lparr>kind = ''i'', itemsize = 8, dtype_name = ''int64''\<rparr>,
             element_strategy = Text\<rparr>
   \<and> do_draw int_setitem draw_abc
        \<lparr>shape = [2, 3], array_size = 6,
           array_dtype = \<lparr>kind = ''i'', itemsize = 8, dtype_name = ''int64''\<rparr>,
           element_strategy = Text\<rparr> ()
       = Inl ValueError"
  by (simp add: ArrayStrategy_init_def np_prod_def wrap_int64_def do_draw_def fill_from.simps
        int_setitem_def draw_abc_def)

subsection \<open>Formatting descriptor strings\<close>

text \<open>Text without a brace is copied to the output.\<close>

lemma format_scan_text:
  "CHR ''{'' \<notin> set t \<Longrightarrow>
   format_scan (t @ rest) None args kwargs out = format_scan rest None args kwargs (out @ t)"
  by (induction t arbitrary: out) auto

lemma format_scan_last_field:
  "format_scan ''{}'' None (v # args) kwargs out = Inr (out @ py_str v)"
  by simp

lemma str_format_one_field:
  assumes "CHR ''{'' \<notin> set t"
  shows "str_format (t @ ''{}'') (v # args) kwargs = Inr (t @ py_str v)"
  unfolding str_format_def format_scan_text [OF assms] format_scan_last_field by simp

lemma str_format_no_field:
  assumes "CHR ''{'' \<notin> set t"
  shows "str_format t args kwargs = Inr t"
  using format_scan_text [OF assms, of "[]" args kwargs "[]"] by (simp add: str_format_def)

text \<open>Formatting only appends: what is written stays at the front of the result.\<close>

lemma format_scan_keeps_output:
  "format_scan t field args kwargs out = Inr s \<Longrightarrow> \<exists>u. s = out @ u"
proof (induction t field args kwargs out rule: format_scan.induct)
  case (1 args kwargs out)
  then show ?case by simp
next
  case (2 field args kwargs out)
  then show ?case by simp
next
  case (3 c cs args kwargs out)
  then show ?case by (auto split: if_splits)
next
  case (4 c cs field args kwargs out)
  then show ?case by (auto split: if_splits list.splits option.splits)
qed

lemma format_with_first_char:
  assumes "c \<noteq> CHR ''{''" "format_with (c # t) v = Inr r"
  shows "\<exists>u. r = PStr (c # u)"
proof -
  from assms(2) obtain s where s: "str_format (c # t) [v] [] = Inr s" "r = PStr s"
    by (auto simp: format_with_def split: sum.splits)
  from s(1) have "format_scan t None [v] [] [c] = Inr s"
    using assms(1) by (simp add: str_format_def)
  then obtain u where "s = [c] @ u"
    using format_scan_keeps_output by blast
  with s(2) show ?thesis by simp
qed

lemma no_brace_no_placeholder: "CHR ''{'' \<notin> set k \<Longrightarrow> \<not> contains ''{}'' k"
  by (induction k) auto

lemma format_with_plain_kind:
  assumes "CHR ''{'' \<notin> set k" "c \<noteq> CHR ''{''"
  shows "format_with (c # k @ ''{}'') v = Inr (PStr (c # k @ py_str v))"
proof -
  have "CHR ''{'' \<notin> set (c # k)" using assms by simp
  then have "str_format ((c # k) @ ''{}'') [v] [] = Inr ((c # k) @ py_str v)"
    by (rule str_format_one_field)
  then show ?thesis by (simp add: format_with_def)
qed

subsection \<open>Size validation in \<open>dtype_factory\<close>\<close>

lemma invalid_sizes_message:
  "str_format ''Invalid sizes: was {} must be an item or sequence in {}'' [a, b] []
     = Inr (''Invalid sizes: was '' @ py_str a @ '' must be an item or sequence in '' @ py_str b)"
  by (simp add: str_format_def)

lemma no_size_message:
  "str_format ''Dtype must have at least one possible size.'' [] []
     = Inr ''Dtype must have at least one possible size.''"
  by (simp add: str_format_def)

lemma normalize_sizes_empty:
  assumes "sizes_tuple sizes = []"
  shows "normalize_sizes sizes valid_sizes
           = Inl (InvalidArgument ''Dtype must have at least one possible size.'')"
  using assms
  by (simp add: normalize_sizes_def check_argument_def format_method_def no_size_message)

lemma normalize_sizes_invalid:
  assumes "sizes_tuple sizes \<noteq> []" "\<not> set (sizes_tuple sizes) \<subseteq> set valid_sizes"
  shows "normalize_sizes sizes valid_sizes
           = Inl (InvalidArgument
                   (''Invalid sizes: was '' @ py_str (PTuple (map PInt (sizes_tuple sizes)))
                    @ '' must be an item or sequence in ''
                    @ py_str (PTuple (map PInt valid_sizes))))"
proof -
  have "\<not> list_all (\<lambda>s. s \<in> set valid_sizes) (sizes_tuple sizes)"
    using assms(2) by (auto simp: list_all_iff)
  then show ?thesis
    using assms(1)
    by (simp add: normalize_sizes_def check_argument_def format_method_def
          invalid_sizes_message)
qed

lemma normalize_sizes_ok:
  assumes "sizes_tuple sizes \<noteq> []" "set (sizes_tuple sizes) \<subseteq> set valid_sizes"
  shows "normalize_sizes sizes valid_sizes
           = Inr (sort (remdups (map (\<lambda>s. s div 8) (sizes_tuple sizes))))"
proof -
  have "list_all (\<lambda>s. s \<in> set valid_sizes) (sizes_tuple sizes)"
    using assms(2) by (auto simp: list_all_iff)
  then show ?thesis
    using assms(1) by (simp add: normalize_sizes_def check_argument_def)
qed

lemma endianness_check_passes:
  "endianness \<in> set valid_endian \<Longrightarrow>
   check_argument (PBool (endianness \<in> set valid_endian)) m args kwargs = Inr ()"
  by (simp add: check_argument_def)

lemma dtype_factory_checked:
  assumes "endianness \<in> set valid_endian"
  shows "dtype_factory kind1 sizes (Some valid_sizes) endianness =
           (case normalize_sizes sizes valid_sizes of
              Inl e \<Rightarrow> Inl e
            | Inr widths \<Rightarrow>
                Inr (if endianness = ''?'' then
                       OneOf [Mapped (format_with (''<'' @ with_placeholder kind1))
                                (SampledFrom (map PInt widths)),
                              Mapped (format_with (''>'' @ with_placeholder kind1))
                                (SampledFrom (map PInt widths))]
                     else Mapped (format_with (endianness @ with_placeholder kind1))
                            (SampledFrom (map PInt widths))))"
  unfolding dtype_factory_def endianness_check_passes [OF assms]
  by (simp add: Let_def split: sum.splits)

lemma draws_mapped_sampled:
  "draws (Mapped f (SampledFrom (map PInt widths))) = (\<lambda>b. f (PInt b)) ` set widths"
  by (simp add: image_image)


text \<open>
  The size block of \<open>dtype_factory\<close>, for a call whose endianness passes the first
  check: if the requested widths are empty or one of them is not a valid width, the call
  fails with InvalidArgument; otherwise the generator returned samples from the list of
  the widths divided by 8 (floor division), without duplicates and sorted ascending, and
  every draw is the descriptor template formatted with one of those byte widths.
\<close>

lemma dtype_factory_validates_sizes:
  assumes "endianness \<in> set valid_endian"
  shows "((sizes_tuple sizes = [] \<or> \<not> set (sizes_tuple sizes) \<subseteq> set valid_sizes)
          \<and> (\<exists>message. dtype_factory kind1 sizes (Some valid_sizes) endianness
                           = Inl (InvalidArgument message)))
         \<or> (sizes_tuple sizes \<noteq> [] \<and> set (sizes_tuple sizes) \<subseteq> set valid_sizes
             \<and> (\<exists>g widths.
                   dtype_factory kind1 sizes (Some valid_sizes) endianness = Inr g
                   \<and> widths = sort (remdups (map (\<lambda>s. s div 8) (sizes_tuple sizes)))
                   \<and> g = (if endianness = ''?'' then
                             OneOf [Mapped (format_with (''<'' @ with_placeholder kind1))
                                      (SampledFrom (map PInt widths)),
                                    Mapped (format_with (''>'' @ with_placeholder kind1))
                                      (SampledFrom (map PInt widths))]
                           else Mapped (format_with (endianness @ with_placeholder kind1))
                                  (SampledFrom (map PInt widths)))
                   \<and> sorted widths \<and> distinct widths
                   \<and> set widths = (\<lambda>s. s div 8) ` set (sizes_tuple sizes)
                   \<and> draws g =
                       (\<Union>mark \<in> (if endianness = ''?'' then {''<'', ''>''} else {endianness}).
                          (\<lambda>b. format_with (mark @ with_placeholder kind1) (PInt b)) ` set widths)))"
proof (cases "sizes_tuple sizes = [] \<or> \<not> set (sizes_tuple sizes) \<subseteq> set valid_sizes")
  case True
  have "\<exists>message. normalize_sizes sizes valid_sizes = Inl (InvalidArgument message)"
  proof (cases "sizes_tuple sizes = []")
    case True
    then show ?thesis by (simp add: normalize_sizes_empty)
  next
    case False
    with True have "\<not> set (sizes_tuple sizes) \<subseteq> set valid_sizes" by simp
    with False show ?thesis by (simp add: normalize_sizes_invalid)
  qed
  then obtain message where "normalize_sizes sizes valid_sizes = Inl (InvalidArgument message)"
    by blast
  then have "dtype_factory kind1 sizes (Some valid_sizes) endianness = Inl (InvalidArgument message)"
    by (simp add: dtype_factory_checked [OF assms])
  then have "\<exists>message. dtype_factory kind1 sizes (Some valid_sizes) endianness
                           = Inl (InvalidArgument message)" ..
  with True show ?thesis by blast
next
  case False
  then have ne: "sizes_tuple sizes \<noteq> []" and sub: "set (sizes_tuple sizes) \<subseteq> set valid_sizes"
    by simp_all
  let ?widths = "sort (remdups (map (\<lambda>s. s div 8) (sizes_tuple sizes)))"
  let ?strat = "SampledFrom (map PInt ?widths)"
  let ?g = "if endianness = ''?'' then
              OneOf [Mapped (format_with (''<'' @ with_placeholder kind1)) ?strat,
                     Mapped (format_with (''>'' @ with_placeholder kind1)) ?strat]
            else Mapped (format_with (endianness @ with_placeholder kind1)) ?strat"
  have g: "dtype_factory kind1 sizes (Some valid_sizes) endianness = Inr ?g"
    by (simp add: dtype_factory_checked [OF assms] normalize_sizes_ok [OF ne sub])
  have d: "draws ?g =
             (\<Union>mark \<in> (if endianness = ''?'' then {''<'', ''>''} else {endianness}).
                (\<lambda>b. format_with (mark @ with_placeholder kind1) (PInt b)) ` set ?widths)"
    by (simp add: draws_mapped_sampled del: draws.simps(8,10))
  have props: "sorted ?widths \<and> distinct ?widths
                 \<and> set ?widths = (\<lambda>s. s div 8) ` set (sizes_tuple sizes)"
    by simp
  have "\<exists>g widths.
          dtype_factory kind1 sizes (Some valid_sizes) endianness = Inr g
          \<and> widths = ?widths
          \<and> g = (if endianness = ''?'' then
                    OneOf [Mapped (format_with (''<'' @ with_placeholder kind1))
                             (SampledFrom (map PInt widths)),
                           Mapped (format_with (''>'' @ with_placeholder kind1))
                             (SampledFrom (map PInt widths))]
                  else Mapped (format_with (endianness @ with_placeholder kind1))
                         (SampledFrom (map PInt widths)))
          \<and> sorted widths \<and> distinct widths
          \<and> set widths = (\<lambda>s. s div 8) ` set (sizes_tuple sizes)
          \<and> draws g =
              (\<Union>mark \<in> (if endianness = ''?'' then {''<'', ''>''} else {endianness}).
                 (\<lambda>b. format_with (mark @ with_placeholder kind1) (PInt b)) ` set widths)"
    by (rule exI [of _ ?g], rule exI [of _ ?widths]) (intro conjI g refl d props [THEN conjunct1]
          props [THEN conjunct2, THEN conjunct1] props [THEN conjunct2, THEN conjunct2])
  with ne sub show ?thesis by blast
qed

text \<open>The equations that print a value and format a template, for evaluating examples.\<close>

lemmas show_simps =
  format_with_def str_format_def py_str_def str_int_def digits.simps digit_char_def
  with_placeholder_def sizes_tuple_def valid_endian_def

text \<open>
  The spec's examples with the default endianness: \<open>sizes=(7,)\<close> and \<open>sizes=()\<close>
  fail with InvalidArgument, and \<open>sizes=(16, 8, 16)\<close> samples from \<open>[1, 2]\<close>.
\<close>

lemma dtype_factory_u_7:
  "dtype_factory ''u'' (SizeSeq [7]) (Some [8, 16, 32, 64]) ''?''
     = Inl (InvalidArgument
             ''Invalid sizes: was (7,) must be an item or sequence in (8, 16, 32, 64)'')"
  by (simp add: dtype_factory_def normalize_sizes_def check_argument_def format_method_def
        show_simps)

lemma dtype_factory_u_none:
  "dtype_factory ''u'' (SizeSeq []) (Some [8, 16, 32, 64]) ''?''
     = Inl (InvalidArgument ''Dtype must have at least one possible size.'')"
  by (simp add: dtype_factory_def normalize_sizes_def check_argument_def format_method_def
        show_simps)

lemma dtype_factory_u_16_8_16:
  "dtype_factory ''u'' (SizeSeq [16, 8, 16]) (Some [8, 16, 32, 64]) ''?''
     = Inr (OneOf [Mapped (format_with ''<u{}'') (SampledFrom [PInt 1, PInt 2]),
                   Mapped (format_with ''>u{}'') (SampledFrom [PInt 1, PInt 2])])
   \<and> draws (OneOf [Mapped (format_with ''<u{}'') (SampledFrom [PInt 1, PInt 2]),
                    Mapped (format_with ''>u{}'') (SampledFrom [PInt 1, PInt 2])])
       = {Inr (PStr ''<u1''), Inr (PStr ''<u2''), Inr (PStr ''>u1''), Inr (PStr ''>u2'')}"
  by (simp add: dtype_factory_def normalize_sizes_def check_argument_def show_simps Let_def
        insert_commute)

text \<open>
  Claim C6 says that in every call with a valid-widths set, requested widths that are
  empty or not all valid make the construction fail with InvalidArgument. The code does
  so only when the endianness is recognised. The endianness is checked first, and for an
  unrecognised one the message of that check cannot be formatted (two \<open>{}\<close> fields,
  one argument): with endianness \<open>x\<close> the calls with \<open>sizes=(7,)\<close> and with
  \<open>sizes=()\<close> fail with IndexError, not InvalidArgument.
\<close>

theorem dtype_factory_bad_sizes_unknown_endianness:
  "dtype_factory ''u'' (SizeSeq [7]) (Some [8, 16, 32, 64]) ''x'' = Inl IndexError
   \<and> dtype_factory ''u'' (SizeSeq []) (Some [8, 16, 32, 64]) ''x'' = Inl IndexError
   \<and> unsigned_integer_dtypes Inr ''x'' (SizeSeq [7]) = Inl IndexError"
  by (simp add: unsigned_integer_dtypes_def defines_dtype_strategy_def dtype_factory_def
        check_argument_def format_method_def unknown_endianness_message valid_endian_def)

text \<open>The spec's examples on \<open>unsigned_integer_dtypes\<close>, for any descriptor parser.\<close>

lemma unsigned_integer_dtypes_examples:
  "(\<exists>g. unsigned_integer_dtypes np_dtype ''?'' (SizeSeq [8, 16]) = Inr g
       \<and> draws g = np_dtype ` {PStr ''<u1'', PStr ''<u2'', PStr ''>u1'', PStr ''>u2''})
   \<and> unsigned_integer_dtypes np_dtype ''?'' (SizeSeq [7])
       = Inl (InvalidArgument
               ''Invalid sizes: was (7,) must be an item or sequence in (8, 16, 32, 64)'')"
  by (simp add: unsigned_integer_dtypes_def defines_dtype_strategy_def dtype_factory_def
        normalize_sizes_def check_argument_def format_method_def show_simps insert_commute
        Let_def)

subsection \<open>Endianness of the descriptors\<close>

lemma dtype_factory_needs_endian:
  assumes "dtype_factory kind1 sizes valid_sizes endianness = Inr g"
  shows "endianness \<in> set valid_endian"
proof (rule ccontr)
  assume "endianness \<notin> set valid_endian"
  then have "dtype_factory kind1 sizes valid_sizes endianness = Inl IndexError"
    by (simp add: dtype_factory_def check_argument_def format_method_def
          unknown_endianness_message)
  with assms show False by simp
qed

lemma dtype_factory_unfold:
  assumes "endianness \<in> set valid_endian"
  shows "dtype_factory kind1 sizes valid_sizes endianness =
           (case (case valid_sizes of
                    Some vs \<Rightarrow> normalize_sizes sizes vs
                  | None \<Rightarrow>
                      (case sizes of
                         SizeSeq ns \<Rightarrow> Inr ns
                       | SizeInt n \<Rightarrow> Inl (TypeError ''object is not iterable''))) of
              Inl e \<Rightarrow> Inl e
            | Inr widths \<Rightarrow>
                Inr (if endianness = ''?'' then
                       OneOf [Mapped (format_with (''<'' @ with_placeholder kind1))
                                (SampledFrom (map PInt widths)),
                              Mapped (format_with (''>'' @ with_placeholder kind1))
                                (SampledFrom (map PInt widths))]
                     else Mapped (format_with (endianness @ with_placeholder kind1))
                            (SampledFrom (map PInt widths))))"
  unfolding dtype_factory_def endianness_check_passes [OF assms]
  by (simp add: Let_def split: sum.splits)

lemma normalize_sizes_nonempty:
  assumes "normalize_sizes sizes valid_sizes = Inr widths"
  shows "widths \<noteq> []"
proof (cases "sizes_tuple sizes = []")
  case True
  then show ?thesis using assms by (simp add: normalize_sizes_empty)
next
  case False
  show ?thesis
  proof (cases "set (sizes_tuple sizes) \<subseteq> set valid_sizes")
    case True
    with False have "widths = sort (remdups (map (\<lambda>s. s div 8) (sizes_tuple sizes)))"
      using assms by (simp add: normalize_sizes_ok)
    then have "set widths = (\<lambda>s. s div 8) ` set (sizes_tuple sizes)" by simp
    with False show ?thesis by auto
  next
    case sub: False
    with False show ?thesis using assms by (simp add: normalize_sizes_invalid)
  qed
qed

lemma fixed_endian_prefix:
  assumes "endianness \<in> set valid_endian" "endianness \<noteq> ''?''"
    and "Inr v \<in> draws (Mapped (format_with (endianness @ t)) (SampledFrom (map PInt widths)))"
  shows "\<exists>u. v = PStr (endianness @ u)"
proof -
  from assms(3) obtain b where b: "format_with (endianness @ t) (PInt b) = Inr v"
    unfolding draws_mapped_sampled by auto
  from assms(1,2) obtain c where c: "endianness = [c]" "c \<noteq> CHR ''{''"
    by (auto simp: valid_endian_def)
  from b have "format_with (c # t) (PInt b) = Inr v"
    by (simp add: c(1))
  with c(2) obtain u where "v = PStr (c # u)"
    using format_with_first_char by blast
  then show ?thesis by (simp add: c(1))
qed

lemma plain_kind_draw:
  assumes "CHR ''{'' \<notin> set kind1" "c \<noteq> CHR ''{''" "b \<in> set widths"
  shows "Inr (PStr ([c] @ kind1 @ py_str (PInt b)))
           \<in> draws (Mapped (format_with ([c] @ with_placeholder kind1)) (SampledFrom (map PInt widths)))"
proof -
  have "with_placeholder kind1 = kind1 @ ''{}''"
    using assms(1) by (simp add: with_placeholder_def no_brace_no_placeholder)
  then have "format_with ([c] @ with_placeholder kind1) (PInt b)
               = Inr (PStr ([c] @ kind1 @ py_str (PInt b)))"
    using format_with_plain_kind [OF assms(1,2), of "PInt b"] by simp
  then show ?thesis
    unfolding draws_mapped_sampled using assms(3) by force
qed


text \<open>
  Claim C7. When \<open>dtype_factory\<close> returns a generator, the endianness is one of the
  four recognised values. With a fixed endianness (\<open><\<close>, \<open>=\<close> or \<open>>\<close>) every
  descriptor string drawn starts with that character. With \<open>?\<close> the generator is the
  union \<open>little | big\<close> of the generators the same call returns for \<open><\<close> and for
  \<open>>\<close>, its draws are the draws of the two, and for the dtype families (a valid-widths
  set and a kind without braces) a little-endian and a big-endian descriptor can both be
  drawn.
\<close>

theorem dtype_factory_endianness:
  assumes "dtype_factory kind1 sizes valid_sizes endianness = Inr g"
  shows "endianness \<in> set valid_endian
         \<and> (endianness \<noteq> ''?''
              \<longrightarrow> (\<forall>v. Inr v \<in> draws g \<longrightarrow> (\<exists>u. v = PStr (endianness @ u))))
         \<and> (endianness = ''?''
              \<longrightarrow> (\<exists>little big.
                     dtype_factory kind1 sizes valid_sizes ''<'' = Inr little
                     \<and> dtype_factory kind1 sizes valid_sizes ''>'' = Inr big
                     \<and> g = OneOf [little, big]
                     \<and> draws g = draws little \<union> draws big))
         \<and> (endianness = ''?'' \<and> valid_sizes \<noteq> None \<and> CHR ''{'' \<notin> set kind1
              \<longrightarrow> (\<exists>u. Inr (PStr (''<'' @ u)) \<in> draws g)
                  \<and> (\<exists>u. Inr (PStr (''>'' @ u)) \<in> draws g))"
proof -
  let ?sizes2 = "case valid_sizes of
                   Some vs \<Rightarrow> normalize_sizes sizes vs
                 | None \<Rightarrow>
                     (case sizes of
                        SizeSeq ns \<Rightarrow> Inr ns
                      | SizeInt n \<Rightarrow> Inl (TypeError ''object is not iterable''))"
  let ?t = "with_placeholder kind1"
  have e: "endianness \<in> set valid_endian"
    using assms by (rule dtype_factory_needs_endian)
  from assms obtain widths where w: "?sizes2 = Inr widths"
    and g: "g = (if endianness = ''?'' then
                   OneOf [Mapped (format_with (''<'' @ ?t)) (SampledFrom (map PInt widths)),
                          Mapped (format_with (''>'' @ ?t)) (SampledFrom (map PInt widths))]
                 else Mapped (format_with (endianness @ ?t)) (SampledFrom (map PInt widths)))"
    unfolding dtype_factory_unfold [OF e] by (auto split: sum.splits)
  let ?little = "Mapped (format_with (''<'' @ ?t)) (SampledFrom (map PInt widths))"
  let ?big = "Mapped (format_with (''>'' @ ?t)) (SampledFrom (map PInt widths))"
  have fixed: "endianness \<noteq> ''?''
                 \<longrightarrow> (\<forall>v. Inr v \<in> draws g \<longrightarrow> (\<exists>u. v = PStr (endianness @ u)))"
  proof (intro impI allI)
    fix v
    assume ne: "endianness \<noteq> ''?''" and v: "Inr v \<in> draws g"
    from ne g have "g = Mapped (format_with (endianness @ ?t)) (SampledFrom (map PInt widths))"
      by simp
    with v have "Inr v \<in> draws (Mapped (format_with (endianness @ ?t))
                                   (SampledFrom (map PInt widths)))"
      by simp
    with e ne show "\<exists>u. v = PStr (endianness @ u)"
      by (rule fixed_endian_prefix)
  qed
  have lt: "''<'' \<in> set valid_endian" and gt: "''>'' \<in> set valid_endian"
    by (simp_all add: valid_endian_def)
  have little: "dtype_factory kind1 sizes valid_sizes ''<'' = Inr ?little"
    unfolding dtype_factory_unfold [OF lt] w by simp
  have big: "dtype_factory kind1 sizes valid_sizes ''>'' = Inr ?big"
    unfolding dtype_factory_unfold [OF gt] w by simp
  have either: "endianness = ''?''
                 \<longrightarrow> (\<exists>little big.
                        dtype_factory kind1 sizes valid_sizes ''<'' = Inr little
                        \<and> dtype_factory kind1 sizes valid_sizes ''>'' = Inr big
                        \<and> g = OneOf [little, big]
                        \<and> draws g = draws little \<union> draws big)"
  proof
    assume q: "endianness = ''?''"
    with g have go: "g = OneOf [?little, ?big]" by simp
    then have "draws g = draws ?little \<union> draws ?big"
      by (simp del: draws.simps(8,10))
    with little big go show "\<exists>little big.
                        dtype_factory kind1 sizes valid_sizes ''<'' = Inr little
                        \<and> dtype_factory kind1 sizes valid_sizes ''>'' = Inr big
                        \<and> g = OneOf [little, big]
                        \<and> draws g = draws little \<union> draws big"
      by blast
  qed
  have both: "endianness = ''?'' \<and> valid_sizes \<noteq> None \<and> CHR ''{'' \<notin> set kind1
                \<longrightarrow> (\<exists>u. Inr (PStr (''<'' @ u)) \<in> draws g)
                    \<and> (\<exists>u. Inr (PStr (''>'' @ u)) \<in> draws g)"
  proof
    assume a: "endianness = ''?'' \<and> valid_sizes \<noteq> None \<and> CHR ''{'' \<notin> set kind1"
    then obtain vs where "valid_sizes = Some vs" by auto
    with w have "normalize_sizes sizes vs = Inr widths" by simp
    then have "widths \<noteq> []" by (rule normalize_sizes_nonempty)
    then obtain b where b: "b \<in> set widths" by (cases widths) auto
    from a g have go: "draws g = draws ?little \<union> draws ?big"
      by (simp del: draws.simps(8,10))
    have "Inr (PStr (''<'' @ kind1 @ py_str (PInt b))) \<in> draws ?little"
      using a b by (intro plain_kind_draw) simp_all
    moreover have "Inr (PStr (''>'' @ kind1 @ py_str (PInt b))) \<in> draws ?big"
      using a b by (intro plain_kind_draw) simp_all
    ultimately have "Inr (PStr (''<'' @ kind1 @ py_str (PInt b))) \<in> draws g"
      and "Inr (PStr (''>'' @ kind1 @ py_str (PInt b))) \<in> draws g"
      unfolding go by blast+
    then show "(\<exists>u. Inr (PStr (''<'' @ u)) \<in> draws g)
                    \<and> (\<exists>u. Inr (PStr (''>'' @ u)) \<in> draws g)"
      by blast
  qed
  show ?thesis
    by (intro conjI e fixed either both)
qed


lemma complex_little:
  "dtype_factory ''c'' (SizeSeq [64, 128]) (Some [64, 128, 192, 256]) ''<''
     = Inr (Mapped (format_with ''<c{}'') (SampledFrom [PInt 8, PInt 16]))"
  by (simp add: dtype_factory_def normalize_sizes_def check_argument_def show_simps Let_def)

lemma complex_either:
  "dtype_factory ''c'' (SizeSeq [64, 128]) (Some [64, 128, 192, 256]) ''?''
     = Inr (OneOf [Mapped (format_with ''<c{}'') (SampledFrom [PInt 8, PInt 16]),
                   Mapped (format_with ''>c{}'') (SampledFrom [PInt 8, PInt 16])])"
  by (simp add: dtype_factory_def normalize_sizes_def check_argument_def show_simps Let_def)

theorem dtype_factory_endianness_witness:
  "(\<exists>g. dtype_factory ''c'' (SizeSeq [64, 128]) (Some [64, 128, 192, 256]) ''<'' = Inr g
        \<and> (\<forall>v. Inr v \<in> draws g \<longrightarrow> (\<exists>u. v = PStr (''<'' @ u))))
   \<and> (\<exists>g. dtype_factory ''c'' (SizeSeq [64, 128]) (Some [64, 128, 192, 256]) ''?'' = Inr g
        \<and> (\<exists>u. Inr (PStr (''<'' @ u)) \<in> draws g)
        \<and> (\<exists>u. Inr (PStr (''>'' @ u)) \<in> draws g))"
proof -
  have fixed: "''<'' \<noteq> ''?''"
    by simp
  have either: "''?'' = ''?'' \<and> Some [64, 128, 192, 256 :: int] \<noteq> None \<and> CHR ''{'' \<notin> set ''c''"
    by simp
  from dtype_factory_endianness [OF complex_little] fixed
  have "\<forall>v. Inr v \<in> draws (Mapped (format_with ''<c{}'') (SampledFrom [PInt 8, PInt 16]))
          \<longrightarrow> (\<exists>u. v = PStr (''<'' @ u))"
    by blast
  moreover from dtype_factory_endianness [OF complex_either] either
  have "(\<exists>u. Inr (PStr (''<'' @ u))
            \<in> draws (OneOf [Mapped (format_with ''<c{}'') (SampledFrom [PInt 8, PInt 16]),
                             Mapped (format_with ''>c{}'') (SampledFrom [PInt 8, PInt 16])]))
   \<and> (\<exists>u. Inr (PStr (''>'' @ u))
            \<in> draws (OneOf [Mapped (format_with ''<c{}'') (SampledFrom [PInt 8, PInt 16]),
                             Mapped (format_with ''>c{}'') (SampledFrom [PInt 8, PInt 16])]))"
    by blast
  ultimately show ?thesis
    using complex_little complex_either by blast
qed

end
